theory Spec2Isabelle
  imports Complex_Main "HOL-Library.Char_ord" "HOL-Library.List_Lexorder" "HOL-Library.Product_Lexorder"
    "HOL-Library.Multiset"
begin

section \<open>Python values, errors and small library functions\<close>

text \<open>
  A string is the list of its characters, compared lexicographically as Python compares
  \<open>str\<close> by code point.  The model covers ASCII text: white space, line boundaries,
  digits and case folding are Python's on the characters below 128, and a theorem that
  depends on how a text is folded, stripped, split or matched assumes \<open>ascii_text\<close> of
  it.  Numbers are exact rationals: the rounding of binary floating point is not part of
  the model.
\<close>

datatype pyval = PyNone | PyNum rat | PyStr string

datatype error = TypeError | AttributeError | IndexError | ValueError string | DateParseError

definition is_ascii :: "char \<Rightarrow> bool" where
  "is_ascii c = ((of_char c :: nat) < 128)"

definition ascii_text :: "string \<Rightarrow> bool" where
  "ascii_text s = list_all is_ascii s"

text \<open>\<open>a < b\<close> on Python values: defined between two numbers and between two strings.\<close>

fun py_lt :: "pyval \<Rightarrow> pyval \<Rightarrow> error + bool" where
  "py_lt (PyNum a) (PyNum b) = Inr (a < b)"
| "py_lt (PyStr a) (PyStr b) = Inr (a < b)"
| "py_lt _ _ = Inl TypeError"

text \<open>\<open>a > b\<close> is \<open>b < a\<close> on these types.\<close>

definition py_gt :: "pyval \<Rightarrow> pyval \<Rightarrow> error + bool" where
  "py_gt a b = py_lt b a"

text \<open>\<open>d.get(k, default)\<close>: an absent key is \<open>None\<close> on the HOL side.\<close>

definition get_default :: "pyval option \<Rightarrow> pyval \<Rightarrow> pyval" where
  "get_default v d = (case v of None \<Rightarrow> d | Some x \<Rightarrow> x)"

text \<open>\<open>xs[:n]\<close> for a Python integer \<open>n\<close>; a negative \<open>n\<close> counts from the end.\<close>

definition py_take :: "int \<Rightarrow> 'a list \<Rightarrow> 'a list" where
  "py_take n xs = (if 0 \<le> n then take (nat n) xs else take (length xs - nat (- n)) xs)"

text \<open>\<open>str.lower()\<close> on ASCII text: the letters \<open>A\<close> to \<open>Z\<close> are folded.\<close>

definition lower_char :: "char \<Rightarrow> char" where
  "lower_char c = (if CHR ''A'' \<le> c \<and> c \<le> CHR ''Z'' then char_of (of_char c + (32::nat)) else c)"

definition lower :: "string \<Rightarrow> string" where
  "lower s = map lower_char s"

text \<open>\<open>sub in s\<close> on strings: \<open>sub\<close> occurs in \<open>s\<close> as a contiguous substring.\<close>

fun starts_with :: "string \<Rightarrow> string \<Rightarrow> bool" where
  "starts_with s [] = True"
| "starts_with [] (p # ps) = False"
| "starts_with (c # cs) (p # ps) = (c = p \<and> starts_with cs ps)"

fun py_in :: "string \<Rightarrow> string \<Rightarrow> bool" where
  "py_in sub [] = (sub = [])"
| "py_in sub (c # cs) = (starts_with (c # cs) sub \<or> py_in sub cs)"

section \<open>Stored documents, the query filter and the vector store\<close>

text \<open>
  The metadata dictionary of a stored document, restricted to the keys the retrieval and
  serialisation code reads.  \<open>None\<close> is an absent key; a key stored with Python's
  \<open>None\<close> is \<open>Some PyNone\<close>.
\<close>

record metadata =
  m_name :: "pyval option"
  m_type :: "pyval option"
  m_distance :: "pyval option"
  m_date :: "pyval option"
  m_pace :: "pyval option"
  m_avg_hr :: "pyval option"
  m_elevation_gain :: "pyval option"

record document =
  page_content :: string
  metadata :: metadata

text \<open>The structured query of the interpreter; \<open>None\<close> is \<open>null\<close> or an absent key.\<close>

record query =
  q_type :: "string option"
  q_min_avg_hr :: "rat option"
  q_max_avg_hr :: "rat option"
  q_start_date :: "string option"
  q_end_date :: "string option"
  q_last_n_runs :: "int option"
  q_distance_km :: "rat option"
  q_metric_filter :: "string option"
  q_run_names :: "string list option"

text \<open>
  The vector store: \<open>vs_docs\<close> is the enumeration order of \<open>vectorstore.get()\<close>,
  \<open>vs_sim\<close> the same documents ordered by distance to the embedding of the empty query,
  which is the order the retriever returns them in.
\<close>

record vectorstore =
  vs_docs :: "document list"
  vs_sim :: "document list"

text \<open>Python truthiness of \<open>query.get(k)\<close>, with the value when it is truthy.\<close>

definition truthy_str :: "string option \<Rightarrow> string option" where
  "truthy_str v = (case v of None \<Rightarrow> None | Some s \<Rightarrow> if s = [] then None else Some s)"

definition truthy_num :: "rat option \<Rightarrow> rat option" where
  "truthy_num v = (case v of None \<Rightarrow> None | Some x \<Rightarrow> if x = 0 then None else Some x)"

definition truthy_int :: "int option \<Rightarrow> int option" where
  "truthy_int v = (case v of None \<Rightarrow> None | Some x \<Rightarrow> if x = 0 then None else Some x)"

definition truthy_list :: "'a list option \<Rightarrow> 'a list option" where
  "truthy_list v = (case v of None \<Rightarrow> None | Some xs \<Rightarrow> if xs = [] then None else Some xs)"

text \<open>
  \<open>as_retriever(search_kwargs={"filter": {"type": t}, "k": k}).invoke("")\<close>: the first
  \<open>k\<close> documents, by similarity, among those whose \<open>type\<close> equals \<open>t\<close>.
\<close>

definition similarity_search :: "vectorstore \<Rightarrow> string option \<Rightarrow> nat \<Rightarrow> document list" where
  "similarity_search vs flt k =
     take k (case flt of None \<Rightarrow> vs_sim vs
             | Some t \<Rightarrow> filter (\<lambda>d. m_type (metadata d) = Some (PyStr t)) (vs_sim vs))"

section \<open>The post-filter of \<open>retrieve_runs\<close>\<close>

text \<open>
  Each check of the loop body is one function; \<open>Inr True\<close> means the check hits
  \<open>continue\<close> and the document is skipped, \<open>Inl\<close> is the exception a comparison raises.
\<close>

definition skip_type :: "query \<Rightarrow> metadata \<Rightarrow> error + bool" where
  "skip_type q m = (case truthy_str (q_type q) of None \<Rightarrow> Inr False
     | Some t \<Rightarrow> Inr (m_type m \<noteq> Some (PyStr t)))"

definition skip_min_avg_hr :: "query \<Rightarrow> metadata \<Rightarrow> error + bool" where
  "skip_min_avg_hr q m = (case truthy_num (q_min_avg_hr q) of None \<Rightarrow> Inr False
     | Some b \<Rightarrow> py_lt (get_default (m_avg_hr m) (PyNum 0)) (PyNum b))"

definition skip_max_avg_hr :: "query \<Rightarrow> metadata \<Rightarrow> error + bool" where
  "skip_max_avg_hr q m = (case truthy_num (q_max_avg_hr q) of None \<Rightarrow> Inr False
     | Some b \<Rightarrow> py_gt (get_default (m_avg_hr m) (PyNum 9999)) (PyNum b))"

definition skip_distance_km :: "query \<Rightarrow> metadata \<Rightarrow> error + bool" where
  "skip_distance_km q m = (case truthy_num (q_distance_km q) of None \<Rightarrow> Inr False
     | Some b \<Rightarrow> py_lt (get_default (m_distance m) PyNone) (PyNum b))"

definition skip_start_date :: "query \<Rightarrow> metadata \<Rightarrow> error + bool" where
  "skip_start_date q m = (case truthy_str (q_start_date q) of None \<Rightarrow> Inr False
     | Some s \<Rightarrow> py_lt (get_default (m_date m) PyNone) (PyStr s))"

definition skip_end_date :: "query \<Rightarrow> metadata \<Rightarrow> error + bool" where
  "skip_end_date q m = (case truthy_str (q_end_date q) of None \<Rightarrow> Inr False
     | Some s \<Rightarrow> py_gt (get_default (m_date m) PyNone) (PyStr s))"

text \<open>
  \<open>any(name.lower() in run_name.lower() for name in names)\<close> with
  \<open>run_name = meta.get("name", "")\<close>; a stored name that is not a string has no
  \<open>lower\<close>.
\<close>

definition name_matches :: "string list \<Rightarrow> metadata \<Rightarrow> error + bool" where
  "name_matches names m =
     (if names = [] then Inr False
      else case get_default (m_name m) (PyStr []) of
             PyStr run_name \<Rightarrow> Inr (list_ex (\<lambda>name. py_in (lower name) (lower run_name)) names)
           | _ \<Rightarrow> Inl AttributeError)"

definition skip_run_names :: "query \<Rightarrow> metadata \<Rightarrow> error + bool" where
  "skip_run_names q m = (case truthy_list (q_run_names q) of None \<Rightarrow> Inr False
     | Some names \<Rightarrow> (case name_matches names m of Inl e \<Rightarrow> Inl e | Inr b \<Rightarrow> Inr (\<not> b)))"

text \<open>The checks run in the order of the source; the first that skips or raises decides.\<close>

fun run_checks :: "(error + bool) list \<Rightarrow> error + bool" where
  "run_checks [] = Inr True"
| "run_checks (c # cs) =
     (case c of Inl e \<Rightarrow> Inl e | Inr skip \<Rightarrow> if skip then Inr False else run_checks cs)"

definition keep_doc :: "query \<Rightarrow> metadata \<Rightarrow> error + bool" where
  "keep_doc q m = run_checks
     [skip_type q m, skip_min_avg_hr q m, skip_max_avg_hr q m, skip_distance_km q m,
      skip_start_date q m, skip_end_date q m, skip_run_names q m]"

fun post_filter :: "query \<Rightarrow> document list \<Rightarrow> error + document list" where
  "post_filter q [] = Inr []"
| "post_filter q (d # ds) =
     (case keep_doc q (metadata d) of
        Inl e \<Rightarrow> Inl e
      | Inr keep \<Rightarrow> (case post_filter q ds of
                      Inl e \<Rightarrow> Inl e
                    | Inr rest \<Rightarrow> Inr (if keep then d # rest else rest)))"

section \<open>Sorting with a key, as \<open>list.sort(key=..., reverse=True)\<close>\<close>

text \<open>
  \<open>datetime.strptime(s, "%Y-%m-%d %H:%M:%S")\<close>.  The format compiles to the pattern
  \<open>\d\d\d\d-(1[0-2]|0[1-9]|[1-9])-(3[01]|[12]\d|0[1-9]|[1-9]| [1-9])\s+(2[0-3]|[0-1]\d|\d):([0-5]\d|\d):(6[0-1]|[0-5]\d|\d)\<close>,
  which must consume the whole string; the fields must then form a calendar date.
\<close>

type_synonym datetime = "nat \<times> nat \<times> nat \<times> nat \<times> nat \<times> nat"

text \<open>
  The characters that \<open>\d\<close> and \<open>\s\<close> match, and that \<open>str.isspace\<close> holds of,
  among the characters below 128.
\<close>

definition is_digit :: "char \<Rightarrow> bool" where
  "is_digit c = (CHR ''0'' \<le> c \<and> c \<le> CHR ''9'')"

definition is_space :: "char \<Rightarrow> bool" where
  "is_space c = ((of_char c :: nat) \<in> {9, 10, 11, 12, 13, 28, 29, 30, 31, 32})"

definition digit_val :: "char \<Rightarrow> nat" where
  "digit_val c = of_char c - 48"

definition nat_of_digits :: "string \<Rightarrow> nat" where
  "nat_of_digits s = foldl (\<lambda>n c. 10 * n + digit_val c) 0 s"

text \<open>One or two digits denoting a number between \<open>lo\<close> and \<open>hi\<close>.\<close>

definition field_in :: "nat \<Rightarrow> nat \<Rightarrow> string \<Rightarrow> nat option" where
  "field_in lo hi s =
     (if (length s = 1 \<or> length s = 2) \<and> list_all is_digit s
         \<and> lo \<le> nat_of_digits s \<and> nat_of_digits s \<le> hi
      then Some (nat_of_digits s) else None)"

definition leap_year :: "nat \<Rightarrow> bool" where
  "leap_year y = (y mod 4 = 0 \<and> (y mod 100 \<noteq> 0 \<or> y mod 400 = 0))"

definition days_in_month :: "nat \<Rightarrow> nat \<Rightarrow> nat" where
  "days_in_month y m =
     (if m = 2 then (if leap_year y then 29 else 28)
      else if m \<in> {4, 6, 9, 11} then 30 else 31)"

text \<open>The day field and what follows it: \<open>" [1-9]"\<close> is the one form with a leading blank.\<close>

definition split_day :: "string \<Rightarrow> (string \<times> string)" where
  "split_day s =
     (case s of
        c # d # rest \<Rightarrow>
          if c = CHR '' '' \<and> is_digit d \<and> d \<noteq> CHR ''0'' then ([d], rest)
          else (takeWhile (\<lambda>x. \<not> is_space x) s, dropWhile (\<lambda>x. \<not> is_space x) s)
      | _ \<Rightarrow> (takeWhile (\<lambda>x. \<not> is_space x) s, dropWhile (\<lambda>x. \<not> is_space x) s))"

definition strptime :: "string \<Rightarrow> datetime option" where
  "strptime s =
     (let ys = take 4 s; r1 = drop 4 s;
          ms = takeWhile (\<lambda>c. c \<noteq> CHR ''-'') (drop 1 r1);
          r2 = dropWhile (\<lambda>c. c \<noteq> CHR ''-'') (drop 1 r1);
          (ds, r3) = split_day (drop 1 r2);
          r4 = dropWhile is_space r3;
          hs = takeWhile (\<lambda>c. c \<noteq> CHR '':'') r4;
          r5 = dropWhile (\<lambda>c. c \<noteq> CHR '':'') r4;
          mins = takeWhile (\<lambda>c. c \<noteq> CHR '':'') (drop 1 r5);
          r6 = dropWhile (\<lambda>c. c \<noteq> CHR '':'') (drop 1 r5);
          ss = drop 1 r6
      in if length ys = 4 \<and> list_all is_digit ys \<and> starts_with r1 ''-''
            \<and> starts_with r2 ''-'' \<and> r3 \<noteq> [] \<and> is_space (hd r3)
            \<and> starts_with r5 '':'' \<and> starts_with r6 '':''
         then (case (field_in 1 12 ms, field_in 1 31 ds, field_in 0 23 hs,
                     field_in 0 59 mins, field_in 0 59 ss) of
                 (Some mo, Some d, Some h, Some mi, Some sec) \<Rightarrow>
                   if 1 \<le> nat_of_digits ys \<and> d \<le> days_in_month (nat_of_digits ys) mo
                   then Some (nat_of_digits ys, mo, d, h, mi, sec) else None
               | _ \<Rightarrow> None)
         else None)"

text \<open>
  Sort keys.  Two keys compare when both are datetimes, both strings or both numbers; any
  other pair raises \<open>TypeError\<close>.  A sort of fewer than two elements compares nothing;
  a sort of two or more whose keys do not all compare raises.
\<close>

datatype sortkey = KDate datetime | KStr string | KNum rat | KNone

definition is_KDate :: "sortkey \<Rightarrow> bool" where
  "is_KDate k = (case k of KDate _ \<Rightarrow> True | _ \<Rightarrow> False)"

definition is_KStr :: "sortkey \<Rightarrow> bool" where
  "is_KStr k = (case k of KStr _ \<Rightarrow> True | _ \<Rightarrow> False)"

definition is_KNum :: "sortkey \<Rightarrow> bool" where
  "is_KNum k = (case k of KNum _ \<Rightarrow> True | _ \<Rightarrow> False)"

definition date_of :: "sortkey \<Rightarrow> datetime" where
  "date_of k = (case k of KDate d \<Rightarrow> d | _ \<Rightarrow> (0, 0, 0, 0, 0, 0))"

definition str_of :: "sortkey \<Rightarrow> string" where
  "str_of k = (case k of KStr s \<Rightarrow> s | _ \<Rightarrow> [])"

definition num_of :: "sortkey \<Rightarrow> rat" where
  "num_of k = (case k of KNum x \<Rightarrow> x | _ \<Rightarrow> 0)"

text \<open>A stable descending sort: equal keys keep their order, as \<open>reverse=True\<close> does.\<close>

definition sort_desc :: "('a \<Rightarrow> 'k::linorder) \<Rightarrow> 'a list \<Rightarrow> 'a list" where
  "sort_desc f xs = rev (sort_key f (rev xs))"

definition py_sort_reverse :: "('a \<Rightarrow> sortkey) \<Rightarrow> 'a list \<Rightarrow> error + 'a list" where
  "py_sort_reverse key xs =
     (if length xs \<le> 1 then Inr xs
      else if list_all (\<lambda>x. is_KDate (key x)) xs then Inr (sort_desc (\<lambda>x. date_of (key x)) xs)
      else if list_all (\<lambda>x. is_KStr (key x)) xs then Inr (sort_desc (\<lambda>x. str_of (key x)) xs)
      else if list_all (\<lambda>x. is_KNum (key x)) xs then Inr (sort_desc (\<lambda>x. num_of (key x)) xs)
      else Inl TypeError)"

definition key_of_pyval :: "pyval \<Rightarrow> sortkey" where
  "key_of_pyval v = (case v of PyStr s \<Rightarrow> KStr s | PyNum x \<Rightarrow> KNum x | PyNone \<Rightarrow> KNone)"

section \<open>The retrieval operations of \<open>ChromaManager\<close>\<close>

text \<open>The key of step 5 of \<open>retrieve_runs\<close>: \<open>x.metadata.get("date", "")\<close>.\<close>

definition date_field_key :: "document \<Rightarrow> sortkey" where
  "date_field_key d = key_of_pyval (get_default (m_date (metadata d)) (PyStr []))"

definition retrieve_runs :: "vectorstore \<Rightarrow> query \<Rightarrow> nat \<Rightarrow> error + document list" where
  "retrieve_runs vs q top_k =
     (case post_filter q (similarity_search vs (truthy_str (q_type q)) (top_k * 3)) of
        Inl e \<Rightarrow> Inl e
      | Inr filtered_docs \<Rightarrow>
          (case truthy_int (q_last_n_runs q) of
             None \<Rightarrow> Inr (take top_k filtered_docs)
           | Some n \<Rightarrow>
               (case py_sort_reverse date_field_key filtered_docs of
                  Inl e \<Rightarrow> Inl e
                | Inr sorted_docs \<Rightarrow> Inr (take top_k (py_take n sorted_docs)))))"

fun matching_docs :: "string list \<Rightarrow> document list \<Rightarrow> error + document list" where
  "matching_docs run_names [] = Inr []"
| "matching_docs run_names (d # ds) =
     (case name_matches run_names (metadata d) of
        Inl e \<Rightarrow> Inl e
      | Inr hit \<Rightarrow> (case matching_docs run_names ds of
                     Inl e \<Rightarrow> Inl e
                   | Inr rest \<Rightarrow> Inr (if hit then d # rest else rest)))"

definition get_runs_by_names :: "vectorstore \<Rightarrow> string list \<Rightarrow> error + document list" where
  "get_runs_by_names vs run_names =
     (if vs_docs vs = [] then Inr [] else matching_docs run_names (vs_docs vs))"

text \<open>
  \<open>get_date_key\<close>: the parsed datetime, or the stored value itself when
  \<open>strptime\<close> raises \<open>ValueError\<close> (a string of another form) or \<open>TypeError\<close>
  (not a string).
\<close>

definition get_date_key :: "document \<Rightarrow> sortkey" where
  "get_date_key d =
     (case get_default (m_date (metadata d)) (PyStr []) of
        PyStr s \<Rightarrow> (case strptime s of Some t \<Rightarrow> KDate t | None \<Rightarrow> KStr s)
      | v \<Rightarrow> key_of_pyval v)"

definition get_latest_runs :: "vectorstore \<Rightarrow> int \<Rightarrow> error + document list" where
  "get_latest_runs vs n =
     (if vs_docs vs = [] then Inr []
      else case py_sort_reverse get_date_key (vs_docs vs) of
             Inl e \<Rightarrow> Inl e
           | Inr docs \<Rightarrow> Inr (py_take n docs))"

section \<open>The retrieval step of \<open>document_retriever_agent\<close>\<close>

text \<open>
  The value of \<open>retrieved_docs\<close> when the agent returns; \<open>Inl\<close> is the exception that
  the agent's handler turns into the state's \<open>error\<close> entry.
\<close>

definition document_retriever_agent :: "vectorstore \<Rightarrow> query \<Rightarrow> error + document list" where
  "document_retriever_agent vs q =
     (if q_type q = Some ''sync'' then Inr []
      else case (case truthy_list (q_run_names q) of
                   Some names \<Rightarrow> get_runs_by_names vs names
                 | None \<Rightarrow> retrieve_runs vs q 20) of
             Inl e \<Rightarrow> Inl e
           | Inr retrieved_docs \<Rightarrow>
               if retrieved_docs = [] then get_latest_runs vs 5 else Inr retrieved_docs)"

section \<open>Example documents, stores and queries\<close>

definition null_query :: query where
  "null_query = \<lparr>q_type = None, q_min_avg_hr = None, q_max_avg_hr = None, q_start_date = None,
     q_end_date = None, q_last_n_runs = None, q_distance_km = None, q_metric_filter = None,
     q_run_names = None\<rparr>"

definition easy_run :: document where
  "easy_run = \<lparr>page_content = [],
     metadata = \<lparr>m_name = Some (PyStr ''Easy Run - 5''), m_type = Some (PyStr ''Easy''),
       m_distance = Some (PyNum 5), m_date = Some (PyStr ''2025-07-30 06:10:00''),
       m_pace = Some (PyNum 7), m_avg_hr = Some (PyNum 140),
       m_elevation_gain = Some (PyNum 12)\<rparr>\<rparr>"

definition tempo_run :: document where
  "tempo_run = \<lparr>page_content = [],
     metadata = \<lparr>m_name = Some (PyStr ''Tempo Run - 2''), m_type = Some (PyStr ''Tempo''),
       m_distance = Some (PyNum 7), m_date = Some (PyStr ''2025-07-31 06:08:32''),
       m_pace = Some (PyNum 6), m_avg_hr = Some (PyNum 163),
       m_elevation_gain = Some (PyNum 16)\<rparr>\<rparr>"

text \<open>A manually entered run: no heart-rate value and no timestamp were stored.\<close>

definition manual_run :: document where
  "manual_run = \<lparr>page_content = [],
     metadata = \<lparr>m_name = Some (PyStr ''Lunch Run''), m_type = Some (PyStr ''Lunch''),
       m_distance = Some (PyNum 4), m_date = None,
       m_pace = Some (PyNum 7), m_avg_hr = None,
       m_elevation_gain = Some (PyNum 0)\<rparr>\<rparr>"

definition two_runs :: vectorstore where
  "two_runs = \<lparr>vs_docs = [easy_run, tempo_run], vs_sim = [tempo_run, easy_run]\<rparr>"

definition mixed_runs :: vectorstore where
  "mixed_runs = \<lparr>vs_docs = [tempo_run, manual_run], vs_sim = [tempo_run, manual_run]\<rparr>"

text \<open>The stored name and date of a document as the retrieval code reads them.\<close>

definition name_str :: "document \<Rightarrow> string" where
  "name_str d = (case get_default (m_name (metadata d)) (PyStr []) of PyStr s \<Rightarrow> s | _ \<Rightarrow> [])"

definition has_str_name :: "document \<Rightarrow> bool" where
  "has_str_name d =
     (case get_default (m_name (metadata d)) (PyStr []) of PyStr s \<Rightarrow> True | _ \<Rightarrow> False)"

definition date_str :: "document \<Rightarrow> string" where
  "date_str d = (case get_default (m_date (metadata d)) (PyStr []) of PyStr s \<Rightarrow> s | _ \<Rightarrow> [])"


definition has_ascii_name :: "document \<Rightarrow> bool" where
  "has_ascii_name d =
     (case get_default (m_name (metadata d)) (PyStr []) of
        PyStr s \<Rightarrow> ascii_text s | _ \<Rightarrow> False)"





section \<open>The query interpreter: \<open>LLMClient.interpret_query\<close>\<close>

text \<open>\<open>str.strip()\<close> on ASCII text: leading and trailing whitespace removed.\<close>

definition strip :: "string \<Rightarrow> string" where
  "strip s = rev (dropWhile is_space (rev (dropWhile is_space s)))"

definition newline :: char where
  "newline = CHR 0x0A"

text \<open>
  \<open>re.sub(r"^```json\s*|```$", "", response, flags=re.MULTILINE)\<close>, scanning from the
  left.  The flag \<open>bol\<close> says that the position is at the start of the string or just
  after a newline, where \<open>^\<close> matches; \<open>$\<close> matches at the end of the string and just
  before a newline.  A match is deleted and the scan goes on after it.
\<close>

function re_sub_fences :: "bool \<Rightarrow> string \<Rightarrow> string" where
  "re_sub_fences bol [] = []"
| "re_sub_fences bol (c # cs) =
     (if bol \<and> starts_with (c # cs) ''```json'' then
        (let ws = takeWhile is_space (drop 7 (c # cs))
         in re_sub_fences (ws \<noteq> [] \<and> last ws = newline) (dropWhile is_space (drop 7 (c # cs))))
      else if starts_with (c # cs) ''```''
              \<and> (drop 3 (c # cs) = [] \<or> hd (drop 3 (c # cs)) = newline) then
        re_sub_fences False (drop 3 (c # cs))
      else c # re_sub_fences (c = newline) cs)"
  by pat_completeness auto
termination
  by (relation "measure (\<lambda>(bol, s). length s)")
     (auto simp: length_dropWhile_le less_Suc_eq_le le_trans [OF length_dropWhile_le])

text \<open>The text handed to \<open>json.loads\<close>.\<close>

definition cleaned_output :: "string \<Rightarrow> string" where
  "cleaned_output content = strip (re_sub_fences True (strip content))"

text \<open>
  The generative model is \<open>llm\<close>: the content of its reply, at its \<open>n\<close>-th invocation,
  to the interpreter's prompt formatted with the user's text; the number of invocations so
  far is the state.  \<open>loads\<close> is \<open>json.loads\<close>, with \<open>None\<close> for \<open>JSONDecodeError\<close>.
\<close>

definition interpret_query ::
  "(string \<Rightarrow> 'j option) \<Rightarrow> (nat \<Rightarrow> string \<Rightarrow> string) \<Rightarrow> string \<Rightarrow> nat
     \<Rightarrow> (error + 'j) \<times> nat" where
  "interpret_query loads llm user_text calls =
     (let content = llm calls user_text;
          calls = Suc calls;
          response = cleaned_output content
      in case loads response of
           None \<Rightarrow> (Inl (ValueError (''Failed to parse Gemini output as JSON:'' @ [newline] @ response)),
                    calls)
         | Some query_dict \<Rightarrow> (Inr query_dict, calls))"

text \<open>The values of \<open>json.loads\<close>.\<close>

datatype json = JNull | JBool bool | JNum rat | JStr string | JArr "json list"
  | JObj "(string \<times> json) list"

text \<open>
  \<open>json.loads\<close> on a text that is one integer literal, \<open>-?(0|[1-9][0-9]*)\<close>: the number
  it denotes.  The examples hand it such literals and texts that are not JSON; on these
  it answers as \<open>json.loads\<close> does, and it knows no other JSON.
\<close>

definition int_literal :: "string \<Rightarrow> bool" where
  "int_literal s =
     (case s of [] \<Rightarrow> False
      | c # cs \<Rightarrow> list_all is_digit s \<and> (if c = CHR ''0'' then cs = [] else True))"

definition loads_integer :: "string \<Rightarrow> json option" where
  "loads_integer s =
     (if int_literal s then Some (JNum (of_nat (nat_of_digits s)))
      else if s \<noteq> [] \<and> hd s = CHR ''-'' \<and> int_literal (tl s)
      then Some (JNum (- of_nat (nat_of_digits (tl s))))
      else None)"

text \<open>Two replies of the model: a number, and an apology.\<close>

definition number_reply :: "nat \<Rightarrow> string \<Rightarrow> string" where
  "number_reply n user_text = ''42''"

definition refusal_reply :: "nat \<Rightarrow> string \<Rightarrow> string" where
  "refusal_reply n user_text = ''Sorry, I cannot help with that.''"

section \<open>The normaliser: \<open>StravaClient.km_wise_data\<close>\<close>

text \<open>
  A NumPy \<open>float64\<close>: a finite value (an exact rational here), an infinity or NaN.
  Division follows IEEE 754: a non-zero value divided by zero is an infinity, not an
  exception.  There is one zero, the positive one.
\<close>

datatype npfloat = Fin rat | PInf | NInf | NaN

fun np_div :: "npfloat \<Rightarrow> npfloat \<Rightarrow> npfloat" where
  "np_div (Fin a) (Fin b) =
     (if b = 0 then (if a = 0 then NaN else if 0 < a then PInf else NInf) else Fin (a / b))"
| "np_div NaN _ = NaN"
| "np_div _ NaN = NaN"
| "np_div (Fin a) _ = Fin 0"
| "np_div PInf (Fin b) = (if 0 \<le> b then PInf else NInf)"
| "np_div NInf (Fin b) = (if 0 \<le> b then NInf else PInf)"
| "np_div _ _ = NaN"

text \<open>
  \<open>safe_array\<close> turns a JSON array into a float array, a null sample into NaN: an
  array is a list of optional rationals, \<open>None\<close> being NaN.
\<close>

type_synonym nparray = "rat option list"

record streams =
  s_distance :: nparray
  s_heartrate :: nparray
  s_cadence :: nparray
  s_watts :: nparray
  s_velocity_smooth :: nparray
  s_altitude :: nparray

definition finite_values :: "nparray \<Rightarrow> rat list" where
  "finite_values xs = concat (map (\<lambda>v. case v of None \<Rightarrow> [] | Some x \<Rightarrow> [x]) xs)"

text \<open>\<open>np.nanmean\<close>: the mean of the values that are not NaN, NaN when there is none.\<close>

definition nanmean :: "nparray \<Rightarrow> npfloat" where
  "nanmean xs = (case finite_values xs of [] \<Rightarrow> NaN
                 | v # vs \<Rightarrow> Fin (sum_list (v # vs) / of_nat (length (v # vs))))"

text \<open>\<open>np.nanmax(a) - np.nanmin(a)\<close> on a non-empty slice.\<close>

definition nan_range :: "nparray \<Rightarrow> npfloat" where
  "nan_range xs = (case finite_values xs of [] \<Rightarrow> NaN
                   | v # vs \<Rightarrow> Fin (Max (set (v # vs)) - Min (set (v # vs))))"

text \<open>\<open>a[mask]\<close>: the boolean mask must have the length of the array.\<close>

definition mask_select :: "bool list \<Rightarrow> nparray \<Rightarrow> error + nparray" where
  "mask_select msk xs =
     (if length msk = length xs then Inr (map snd (filter fst (zip msk xs)))
      else Inl IndexError)"

text \<open>\<open>f(a[mask]) if a.size else None\<close>.\<close>

definition masked :: "(nparray \<Rightarrow> npfloat) \<Rightarrow> bool list \<Rightarrow> nparray \<Rightarrow> error + npfloat option" where
  "masked f msk xs =
     (if xs = [] then Inr None
      else case mask_select msk xs of Inl e \<Rightarrow> Inl e | Inr sel \<Rightarrow> Inr (Some (f sel)))"

record km_row =
  KM :: int
  Avg_HR :: "npfloat option"
  Avg_Cadence :: "npfloat option"
  Avg_Power :: "npfloat option"
  Avg_Pace_min_per_km :: "npfloat option"
  Elevation_Gain_m :: "npfloat option"

text \<open>\<open>(1000 / np.nanmean(pace[mask])) / 60\<close>.\<close>

definition pace_of :: "nparray \<Rightarrow> npfloat" where
  "pace_of sel = np_div (np_div (Fin 1000) (nanmean sel)) (Fin 60)"

text \<open>The mask of kilometre \<open>km\<close>; a comparison with NaN is false.\<close>

definition km_mask :: "nparray \<Rightarrow> int \<Rightarrow> bool list" where
  "km_mask ds km =
     map (\<lambda>v. case v of None \<Rightarrow> False
               | Some d \<Rightarrow> of_int ((km - 1) * 1000) \<le> d \<and> d < of_int (km * 1000)) ds"

text \<open>The body of the loop for one kilometre: \<open>None\<close> when the bucket has no sample.\<close>

definition km_bucket :: "streams \<Rightarrow> int \<Rightarrow> error + km_row option" where
  "km_bucket st km =
     (let msk = km_mask (s_distance st) km in
      if \<not> list_ex id msk then Inr None
      else case masked nanmean msk (s_heartrate st) of Inl e \<Rightarrow> Inl e | Inr hr \<Rightarrow>
           case masked nanmean msk (s_cadence st) of Inl e \<Rightarrow> Inl e | Inr cad \<Rightarrow>
           case masked nanmean msk (s_watts st) of Inl e \<Rightarrow> Inl e | Inr watts \<Rightarrow>
           case masked pace_of msk (s_velocity_smooth st) of Inl e \<Rightarrow> Inl e | Inr pace \<Rightarrow>
           case masked nan_range msk (s_altitude st) of Inl e \<Rightarrow> Inl e | Inr alt \<Rightarrow>
             Inr (Some \<lparr>KM = km, Avg_HR = hr, Avg_Cadence = cad, Avg_Power = watts,
                        Avg_Pace_min_per_km = pace, Elevation_Gain_m = alt\<rparr>))"

fun km_rows :: "streams \<Rightarrow> int list \<Rightarrow> error + km_row list" where
  "km_rows st [] = Inr []"
| "km_rows st (km # kms) =
     (case km_bucket st km of
        Inl e \<Rightarrow> Inl e
      | Inr r \<Rightarrow> (case km_rows st kms of
                   Inl e \<Rightarrow> Inl e
                 | Inr rows \<Rightarrow> Inr (case r of None \<Rightarrow> rows | Some row \<Rightarrow> row # rows)))"

text \<open>
  \<open>km_segments = int(dist[-1] // 1000)\<close> raises \<open>ValueError\<close> on NaN; the loop runs
  over \<open>range(1, km_segments + 1)\<close>.
\<close>

definition km_wise_data :: "streams \<Rightarrow> error + km_row list" where
  "km_wise_data st =
     (if s_distance st = [] then Inr []
      else case last (s_distance st) of
             None \<Rightarrow> Inl (ValueError ''cannot convert float NaN to integer'')
           | Some d \<Rightarrow> km_rows st [1 .. \<lfloor>d / 1000\<rfloor>])"

text \<open>A run of one kilometre whose velocity samples are all zero.\<close>

definition stalled_run :: streams where
  "stalled_run = \<lparr>s_distance = [Some 0, Some 500, Some 1000], s_heartrate = [],
     s_cadence = [], s_watts = [], s_velocity_smooth = [Some 0, Some 0, Some 0],
     s_altitude = []\<rparr>"

definition steady_run :: streams where
  "steady_run = \<lparr>s_distance = [Some 0, Some 500, Some 1000], s_heartrate = [],
     s_cadence = [], s_watts = [], s_velocity_smooth = [Some 2, Some 3, Some 4],
     s_altitude = []\<rparr>"

section \<open>The context serialiser: \<open>ChromaManager.docs_to_context\<close>\<close>

text \<open>
  \<open>str(v)\<close> as an f-string renders a metadata value; \<open>num_str\<close> is Python's rendering
  of a number, a parameter of the model.
\<close>

definition py_str :: "(rat \<Rightarrow> string) \<Rightarrow> pyval option \<Rightarrow> string" where
  "py_str num_str v = (case v of None \<Rightarrow> ''None'' | Some PyNone \<Rightarrow> ''None''
                       | Some (PyNum x) \<Rightarrow> num_str x | Some (PyStr s) \<Rightarrow> s)"

text \<open>\<open>sep.join(xs)\<close> and \<open>s.split(c)\<close> for a separator of one character.\<close>

fun py_join :: "string \<Rightarrow> string list \<Rightarrow> string" where
  "py_join sep [] = []"
| "py_join sep [x] = x"
| "py_join sep (x # y # ys) = x @ sep @ py_join sep (y # ys)"

fun py_split :: "char \<Rightarrow> string \<Rightarrow> string list" where
  "py_split c [] = [Nil]"
| "py_split c (x # xs) =
     (if x = c then [] # py_split c xs
      else case py_split c xs of p # ps \<Rightarrow> (x # p) # ps | [] \<Rightarrow> [x # Nil])"

text \<open>The summary line of a document, without the newline that the f-string starts with.\<close>

definition summary_line :: "(rat \<Rightarrow> string) \<Rightarrow> metadata \<Rightarrow> string" where
  "summary_line num_str meta =
     py_str num_str (m_date meta) @ '' | '' @ py_str num_str (m_name meta) @ '' | ''
     @ ''Distance: '' @ py_str num_str (m_distance meta) @ '' km | ''
     @ ''Pace: '' @ py_str num_str (m_pace meta) @ '' min/km | ''
     @ ''Avg HR: '' @ py_str num_str (m_avg_hr meta) @ '' bpm | ''
     @ ''Elevation: '' @ py_str num_str (m_elevation_gain meta) @ '' m | ''
     @ ''Type: '' @ py_str num_str (m_type meta)"

text \<open>\<open>"\n".join(doc.page_content.split("\n")[8:])\<close>.\<close>

definition km_data :: "document \<Rightarrow> string" where
  "km_data d = py_join [newline] (drop 8 (py_split newline (page_content d)))"

definition context_lines :: "(rat \<Rightarrow> string) \<Rightarrow> bool \<Rightarrow> document \<Rightarrow> string list" where
  "context_lines num_str include_per_km d =
     (newline # summary_line num_str (metadata d)) # (if include_per_km then [km_data d] else [])"

definition docs_to_context :: "(rat \<Rightarrow> string) \<Rightarrow> document list \<Rightarrow> bool \<Rightarrow> string" where
  "docs_to_context num_str docs include_per_km =
     (if docs = [] then ''No run data available.''
      else py_join [newline] (concat (map (context_lines num_str include_per_km) docs)))"

section \<open>The context deserialiser: \<open>ChromaManager.context_to_dataframe\<close>\<close>

text \<open>
  \<open>str.splitlines()\<close> on ASCII text: the line boundaries below 128, \<open>\r\n\<close>
  counting as one.
\<close>

definition is_linebreak :: "char \<Rightarrow> bool" where
  "is_linebreak c = ((of_char c :: nat) \<in> {10, 11, 12, 13, 28, 29, 30})"

definition after_break :: "char \<Rightarrow> string \<Rightarrow> string" where
  "after_break c r = (if c = CHR 0x0D \<and> r \<noteq> [] \<and> hd r = newline then tl r else r)"

function splitlines :: "string \<Rightarrow> string list" where
  "splitlines [] = []"
| "splitlines (x # xs) =
     (case dropWhile (\<lambda>c. \<not> is_linebreak c) (x # xs) of
        [] \<Rightarrow> [x # xs]
      | c # r \<Rightarrow> takeWhile (\<lambda>c. \<not> is_linebreak c) (x # xs) # splitlines (after_break c r))"
  by pat_completeness auto
termination
proof (relation "measure length", goal_cases)
  case 1
  show ?case by simp
next
  case (2 x xs c r)
  have "length (after_break c r) \<le> length r"
    by (simp add: after_break_def)
  moreover have "length (c # r) \<le> length (x # xs)"
    using 2 by (metis length_dropWhile_le)
  ultimately show ?case by simp
qed

text \<open>The pattern \<open>^\d{4}-\d{2}-\d{2}\<close> at the start of a line.\<close>

definition match_date :: "string \<Rightarrow> bool" where
  "match_date l =
     (10 \<le> length l \<and> list_all is_digit (take 4 l) \<and> l ! 4 = CHR ''-''
      \<and> list_all is_digit (take 2 (drop 5 l)) \<and> l ! 7 = CHR ''-''
      \<and> list_all is_digit (take 2 (drop 8 l)))"

text \<open>
  The first match of \<open>[\d.]+\<close> in a string (empty when there is none), and the first
  match of a label followed by a group of one or more characters of a class.
\<close>

definition is_num_char :: "char \<Rightarrow> bool" where
  "is_num_char c = (is_digit c \<or> c = CHR ''.'')"

definition first_num :: "string \<Rightarrow> string" where
  "first_num s = takeWhile is_num_char (dropWhile (\<lambda>c. \<not> is_num_char c) s)"

fun find_labeled :: "string \<Rightarrow> (char \<Rightarrow> bool) \<Rightarrow> string \<Rightarrow> string option" where
  "find_labeled lab p [] = None"
| "find_labeled lab p (c # cs) =
     (if starts_with (c # cs) lab \<and> takeWhile p (drop (length lab) (c # cs)) \<noteq> []
      then Some (takeWhile p (drop (length lab) (c # cs)))
      else find_labeled lab p cs)"

text \<open>
  \<open>float(s)\<close> on a match of \<open>[\d.]+\<close>: digits with at most one point and at least one
  digit; \<open>None\<close> is \<open>ValueError\<close>.  The function is applied to such matches only.
\<close>

definition py_float :: "string \<Rightarrow> rat option" where
  "py_float s =
     (let ip = takeWhile is_digit s; r = dropWhile is_digit s in
      if r = [] then (if ip = [] then None else Some (of_nat (nat_of_digits ip)))
      else if hd r = CHR ''.'' \<and> list_all is_digit (tl r) \<and> (ip \<noteq> [] \<or> tl r \<noteq> [])
      then Some (of_nat (nat_of_digits ip) + of_nat (nat_of_digits (tl r)) / 10 ^ length (tl r))
      else None)"

text \<open>\<open>float(m[0]) if m else 0\<close> for the matches \<open>m\<close> of \<open>[\d.]+\<close> in a segment.\<close>

definition num_field :: "string \<Rightarrow> error + rat" where
  "num_field part =
     (if first_num part = [] then Inr 0
      else case py_float (first_num part) of
             None \<Rightarrow> Inl (ValueError ''could not convert string to float'')
           | Some v \<Rightarrow> Inr v)"

text \<open>\<open>s.replace("Type: ", "")\<close>: the occurrences are deleted from the left.\<close>

function remove_all :: "string \<Rightarrow> string \<Rightarrow> string" where
  "remove_all pat [] = []"
| "remove_all pat (c # cs) =
     (if pat \<noteq> [] \<and> starts_with (c # cs) pat then remove_all pat (drop (length pat) (c # cs))
      else c # remove_all pat cs)"
  by pat_completeness auto
termination
  by (relation "measure (\<lambda>(pat, s). length s)") auto

record header =
  h_date :: string
  h_run_name :: string
  h_distance :: rat
  h_avg_pace :: rat
  h_avg_hr :: rat
  h_total_elevation :: rat
  h_run_type :: string

text \<open>
  The dictionary built from the seven leading segments of a header line; the four
  conversions run in the order of the dictionary display, and the first that fails
  raises.
\<close>

definition parse_header :: "string list \<Rightarrow> error + header" where
  "parse_header parts =
     (case num_field (parts ! 2) of Inl e \<Rightarrow> Inl e | Inr distance \<Rightarrow>
      case num_field (parts ! 3) of Inl e \<Rightarrow> Inl e | Inr avg_pace \<Rightarrow>
      case num_field (parts ! 4) of Inl e \<Rightarrow> Inl e | Inr avg_hr \<Rightarrow>
      case num_field (parts ! 5) of Inl e \<Rightarrow> Inl e | Inr total_elevation \<Rightarrow>
        Inr \<lparr>h_date = strip (parts ! 0), h_run_name = strip (parts ! 1),
             h_distance = distance, h_avg_pace = avg_pace, h_avg_hr = avg_hr,
             h_total_elevation = total_elevation,
             h_run_type = remove_all ''Type: '' (strip (parts ! 6))\<rparr>)"

record km_fields =
  k_km :: nat
  k_pace :: rat
  k_hr :: rat
  k_power :: rat
  k_elevation_gain :: rat

text \<open>\<open>float(m[0]) if m else 0\<close> for the matches of a labelled group.\<close>

definition labeled_num :: "string \<Rightarrow> string \<Rightarrow> rat option" where
  "labeled_num lab line =
     (case find_labeled lab is_num_char line of None \<Rightarrow> Some 0 | Some m \<Rightarrow> py_float m)"

text \<open>
  The body of the \<open>try\<close> for a per-KM line; \<open>None\<close> is the \<open>IndexError\<close> or
  \<open>ValueError\<close> that the handler answers with \<open>continue\<close>.
\<close>

definition parse_km_line :: "string \<Rightarrow> km_fields option" where
  "parse_km_line line =
     (case find_labeled ''KM '' is_digit line of None \<Rightarrow> None | Some ds \<Rightarrow>
      case labeled_num ''Pace '' line of None \<Rightarrow> None | Some pace \<Rightarrow>
      case labeled_num ''HR '' line of None \<Rightarrow> None | Some hr \<Rightarrow>
      case labeled_num ''Power '' line of None \<Rightarrow> None | Some watts \<Rightarrow>
      case labeled_num ''Elevation Gain '' line of None \<Rightarrow> None | Some elevation_gain \<Rightarrow>
        Some \<lparr>k_km = nat_of_digits ds, k_pace = pace, k_hr = hr, k_power = watts,
              k_elevation_gain = elevation_gain\<rparr>)"

record 'd row =
  r_date :: 'd
  r_run_name :: string
  r_run_type :: string
  r_km :: nat
  r_pace :: rat
  r_hr :: rat
  r_power :: rat
  r_elevation_gain :: rat
  r_distance :: rat
  r_avg_hr :: rat
  r_avg_pace :: rat
  r_total_elevation :: rat

text \<open>
  The appended row: \<open>current_run.get(key, default)\<close> reads the open header, and the
  defaults when \<open>current_run\<close> is still the empty dictionary.
\<close>

definition mk_row :: "header option \<Rightarrow> km_fields \<Rightarrow> string row" where
  "mk_row current_run k =
     \<lparr>r_date = (case current_run of None \<Rightarrow> [] | Some h \<Rightarrow> h_date h),
      r_run_name = (case current_run of None \<Rightarrow> [] | Some h \<Rightarrow> h_run_name h),
      r_run_type = (case current_run of None \<Rightarrow> [] | Some h \<Rightarrow> h_run_type h),
      r_km = k_km k, r_pace = k_pace k, r_hr = k_hr k, r_power = k_power k,
      r_elevation_gain = k_elevation_gain k,
      r_distance = (case current_run of None \<Rightarrow> 0 | Some h \<Rightarrow> h_distance h),
      r_avg_hr = (case current_run of None \<Rightarrow> 0 | Some h \<Rightarrow> h_avg_hr h),
      r_avg_pace = (case current_run of None \<Rightarrow> 0 | Some h \<Rightarrow> h_avg_pace h),
      r_total_elevation = (case current_run of None \<Rightarrow> 0 | Some h \<Rightarrow> h_total_elevation h)\<rparr>"

text \<open>The loop over the lines, with \<open>current_run\<close> as its state.\<close>

fun parse_lines :: "header option \<Rightarrow> string list \<Rightarrow> error + string row list" where
  "parse_lines current_run [] = Inr []"
| "parse_lines current_run (raw # ls) =
     (let line = strip raw in
      if line = [] then parse_lines current_run ls
      else if match_date line then
        (if 7 \<le> length (py_split CHR ''|'' line) then
           (case parse_header (py_split CHR ''|'' line) of
              Inl e \<Rightarrow> Inl e
            | Inr h \<Rightarrow> parse_lines (Some h) ls)
         else parse_lines current_run ls)
      else if starts_with line ''KM'' then
        (case parse_km_line line of
           None \<Rightarrow> parse_lines current_run ls
         | Some k \<Rightarrow> (case parse_lines current_run ls of
                        Inl e \<Rightarrow> Inl e
                      | Inr rows \<Rightarrow> Inr (mk_row current_run k # rows)))
      else parse_lines current_run ls)"

text \<open>The list \<open>rows\<close> when the loop ends.\<close>

definition context_rows :: "string \<Rightarrow> error + string row list" where
  "context_rows context = parse_lines None (splitlines context)"

text \<open>
  \<open>df["date"] = pd.to_datetime(df["date"])\<close> on a frame that is not empty.
  \<open>to_datetime\<close> is \<open>pd.to_datetime\<close> on the column of date texts: the column of
  timestamps, one for each text, or \<open>None\<close> when it raises, which ends the call with
  its exception, \<open>DateParseError\<close> here.  The column replaces the date texts of the
  rows.
\<close>

definition retype_row :: "'t \<Rightarrow> string row \<Rightarrow> 't row" where
  "retype_row t r =
     \<lparr>r_date = t, r_run_name = r_run_name r, r_run_type = r_run_type r, r_km = r_km r,
      r_pace = r_pace r, r_hr = r_hr r, r_power = r_power r,
      r_elevation_gain = r_elevation_gain r, r_distance = r_distance r,
      r_avg_hr = r_avg_hr r, r_avg_pace = r_avg_pace r,
      r_total_elevation = r_total_elevation r\<rparr>"

definition retype_dates ::
  "(string list \<Rightarrow> 't list option) \<Rightarrow> string row list \<Rightarrow> error + 't row list" where
  "retype_dates to_datetime rows =
     (if rows = [] then Inr []
      else case to_datetime (map r_date rows) of
             None \<Rightarrow> Inl DateParseError
           | Some ts \<Rightarrow> Inr (map2 retype_row ts rows))"

definition context_to_dataframe ::
  "(string list \<Rightarrow> 't list option) \<Rightarrow> string \<Rightarrow> error + 't row list" where
  "context_to_dataframe to_datetime context =
     (case context_rows context of
        Inl e \<Rightarrow> Inl e
      | Inr rows \<Rightarrow> retype_dates to_datetime rows)"

text \<open>
  \<open>pd.to_datetime\<close> on a column whose texts are empty or timestamps in the stored
  format, zero-padded, of a year that a pandas timestamp can hold: the empty text becomes
  \<open>NaT\<close>, here \<open>None\<close>, and a timestamp text its datetime.  The examples hold such
  columns only; this instance refuses every other column.
\<close>

definition stored_text :: "string \<Rightarrow> bool" where
  "stored_text s =
     (s = [] \<or> (length s = 19 \<and> (case strptime s of None \<Rightarrow> False
                                 | Some t \<Rightarrow> 1678 \<le> fst t \<and> fst t \<le> 2261)))"

definition to_datetime_stored :: "string list \<Rightarrow> datetime option list option" where
  "to_datetime_stored col =
     (if list_all stored_text col then Some (map (\<lambda>s. if s = [] then None else strptime s) col)
      else None)"

text \<open>The per-KM lines of a text that parse, as the deserialiser reads them.\<close>

definition line_entry :: "string \<Rightarrow> km_fields list" where
  "line_entry l =
     (if starts_with (strip l) ''KM''
      then (case parse_km_line (strip l) of None \<Rightarrow> [] | Some k \<Rightarrow> [k])
      else [])"

definition km_entries :: "string \<Rightarrow> km_fields list" where
  "km_entries text = concat (map line_entry (splitlines text))"

text \<open>The lines the loop looks at: stripped, the blank ones left out.\<close>

definition nonblank :: "string list \<Rightarrow> string list" where
  "nonblank ls = filter (\<lambda>l. l \<noteq> []) (map strip ls)"

text \<open>A per-KM line with no header line before it.\<close>

definition orphan_context :: string where
  "orphan_context = ''KM 1: Pace 8.409 min/km, HR 142.024 bpm, Power 175.074 W, Elevation Gain 8.4 m''"

section \<open>Documents that survive the round trip through the context\<close>

text \<open>
  A number whose rendering is a plain non-negative decimal that \<open>float\<close> reads back as
  the number itself.
\<close>

definition plain_decimal :: "(rat \<Rightarrow> string) \<Rightarrow> pyval option \<Rightarrow> bool" where
  "plain_decimal num_str v =
     (case v of Some (PyNum x) \<Rightarrow>
        num_str x \<noteq> [] \<and> list_all is_num_char (num_str x) \<and> py_float (num_str x) = Some x
      | _ \<Rightarrow> False)"

text \<open>An ASCII text with no field separator and no line boundary in it.\<close>

definition field_text :: "string \<Rightarrow> bool" where
  "field_text s = list_all (\<lambda>c. is_ascii c \<and> c \<noteq> CHR ''|'' \<and> \<not> is_linebreak c) s"

definition type_str :: "document \<Rightarrow> string" where
  "type_str d = (case m_type (metadata d) of Some (PyStr s) \<Rightarrow> s | _ \<Rightarrow> [])"

definition num_val :: "pyval option \<Rightarrow> rat" where
  "num_val v = (case v of Some (PyNum x) \<Rightarrow> x | _ \<Rightarrow> 0)"

definition wf_doc :: "(rat \<Rightarrow> string) \<Rightarrow> document \<Rightarrow> bool" where
  "wf_doc num_str d =
     ((case m_date (metadata d) of
         Some (PyStr dt) \<Rightarrow> match_date dt \<and> field_text dt \<and> \<not> is_space (last dt)
       | _ \<Rightarrow> False)
      \<and> (case m_name (metadata d) of
            Some (PyStr n) \<Rightarrow> field_text n \<and> strip n = n
          | _ \<Rightarrow> False)
      \<and> (case m_type (metadata d) of
            Some (PyStr t) \<Rightarrow> field_text t \<and> t \<noteq> [] \<and> \<not> is_space (last t)
                              \<and> \<not> py_in ''Type: '' t
          | _ \<Rightarrow> False)
      \<and> plain_decimal num_str (m_distance (metadata d))
      \<and> plain_decimal num_str (m_pace (metadata d))
      \<and> plain_decimal num_str (m_avg_hr (metadata d))
      \<and> plain_decimal num_str (m_elevation_gain (metadata d))
      \<and> ascii_text (page_content d)
      \<and> list_all (\<lambda>l. \<not> match_date (strip l)) (splitlines (km_data d)))"

text \<open>The header and the rows that a document stands for.\<close>

definition header_of :: "document \<Rightarrow> header" where
  "header_of d =
     \<lparr>h_date = date_str d, h_run_name = name_str d,
      h_distance = num_val (m_distance (metadata d)),
      h_avg_pace = num_val (m_pace (metadata d)),
      h_avg_hr = num_val (m_avg_hr (metadata d)),
      h_total_elevation = num_val (m_elevation_gain (metadata d)),
      h_run_type = type_str d\<rparr>"

definition doc_rows :: "document \<Rightarrow> string row list" where
  "doc_rows d = map (mk_row (Some (header_of d))) (km_entries (km_data d))"

text \<open>
  The rendering of a float in positional notation, for the examples: the integer part,
  the point, and the digits of the fraction, at least one.
\<close>

definition digit_char :: "nat \<Rightarrow> char" where
  "digit_char n = char_of (48 + n)"

fun nat_digits :: "nat \<Rightarrow> nat \<Rightarrow> string" where
  "nat_digits 0 n = []"
| "nat_digits (Suc fuel) n =
     (if n < 10 then [digit_char n] else nat_digits fuel (n div 10) @ [digit_char (n mod 10)])"

fun frac_digits :: "nat \<Rightarrow> rat \<Rightarrow> string" where
  "frac_digits 0 x = []"
| "frac_digits (Suc fuel) x =
     digit_char (nat \<lfloor>x * 10\<rfloor>)
     # (if x * 10 - of_int \<lfloor>x * 10\<rfloor> = 0 then [] else frac_digits fuel (x * 10 - of_int \<lfloor>x * 10\<rfloor>))"

definition float_str :: "rat \<Rightarrow> string" where
  "float_str x =
     (if x < 0 then ''-'' else []) @ nat_digits 20 (nat \<lfloor>\<bar>x\<bar>\<rfloor>) @ ''.''
     @ frac_digits 17 (\<bar>x\<bar> - of_int \<lfloor>\<bar>x\<bar>\<rfloor>)"

definition tempo_summary :: string where
  "tempo_summary = py_join [newline]
     [''Run Name: Tempo Run - 2'', ''Timestamp: 2025-07-31 06:08:32'', ''Distance: 7.0 kms'',
      ''Run Type: Tempo'', ''Average Heart Rate: 162.78 bpm'', ''Average Pace: 9.24 min/km'',
      ''Average Power: 163.15 W'', ''Elevation Gain: 15.6 m'', [], ''Per-KM Breakdown:'',
      ''KM 1: Pace 8.725 min/km, HR 146.248 bpm, Power 170 W, Elevation Gain 2.2 m'',
      ''KM 2: Pace 7.909 min/km, HR 166.694 bpm, Power 165 W, Elevation Gain 2.6 m'']"

definition tempo_doc :: document where
  "tempo_doc = \<lparr>page_content = tempo_summary,
     metadata = \<lparr>m_name = Some (PyStr ''Tempo Run - 2''), m_type = Some (PyStr ''Tempo''),
       m_distance = Some (PyNum 7), m_date = Some (PyStr ''2025-07-31 06:08:32''),
       m_pace = Some (PyNum (924 / 100)), m_avg_hr = Some (PyNum (16278 / 100)),
       m_elevation_gain = Some (PyNum (156 / 10))\<rparr>\<rparr>"

text \<open>The same run under a name that holds the field separator.\<close>

definition piped_doc :: document where
  "piped_doc = \<lparr>page_content = tempo_summary,
     metadata = \<lparr>m_name = Some (PyStr ''Tempo | Week 3''), m_type = Some (PyStr ''Tempo''),
       m_distance = Some (PyNum 7), m_date = Some (PyStr ''2025-07-31 06:08:32''),
       m_pace = Some (PyNum (924 / 100)), m_avg_hr = Some (PyNum (16278 / 100)),
       m_elevation_gain = Some (PyNum (156 / 10))\<rparr>\<rparr>"

section \<open>Facts about the post-filter\<close>

lemmas truthy_defs = truthy_str_def truthy_num_def truthy_int_def truthy_list_def

lemmas skip_defs = skip_type_def skip_min_avg_hr_def skip_max_avg_hr_def skip_distance_km_def
  skip_start_date_def skip_end_date_def skip_run_names_def

text \<open>
  C4 (as amended).  The defaults of the two heart-rate checks are \<open>0\<close> for the lower bound
  and \<open>9999\<close> for the upper bound.  A document whose metadata has no \<open>avg_hr\<close> key is
  therefore skipped by every positive \<open>min_avg_hr\<close> and by every set \<open>max_avg_hr\<close> below
  \<open>9999\<close>; it passes a bound only when the bound is unset or zero, when \<open>min_avg_hr\<close> is
  negative, or when \<open>max_avg_hr\<close> is at least \<open>9999\<close>.
\<close>

theorem missing_avg_hr_is_excluded:
  assumes "m_avg_hr m = None"
  shows "skip_min_avg_hr q m = Inr (case q_min_avg_hr q of None \<Rightarrow> False | Some b \<Rightarrow> 0 < b)
       \<and> skip_max_avg_hr q m
           = Inr (case q_max_avg_hr q of None \<Rightarrow> False | Some b \<Rightarrow> b \<noteq> 0 \<and> b < 9999)"
  using assms
  by (auto simp: skip_min_avg_hr_def skip_max_avg_hr_def truthy_num_def get_default_def py_gt_def
      split: option.splits)

theorem missing_avg_hr_is_excluded_witness:
  "m_avg_hr (metadata manual_run) = None
   \<and> skip_min_avg_hr (null_query\<lparr>q_min_avg_hr := Some 120\<rparr>) (metadata manual_run) = Inr True
   \<and> skip_max_avg_hr (null_query\<lparr>q_max_avg_hr := Some 10000\<rparr>) (metadata manual_run) = Inr False"
proof -
  have h: "m_avg_hr (metadata manual_run) = None"
    by (simp add: manual_run_def)
  show ?thesis
    using h missing_avg_hr_is_excluded [OF h, of "null_query\<lparr>q_min_avg_hr := Some 120\<rparr>"]
      missing_avg_hr_is_excluded [OF h, of "null_query\<lparr>q_max_avg_hr := Some 10000\<rparr>"]
    by simp
qed

text \<open>
  C4 as stated fails: the manual run has no \<open>avg_hr\<close>, and an upper bound of 180 bpm skips
  it, as does a lower bound of 120 bpm.
\<close>

theorem missing_avg_hr_counterexample:
  "m_avg_hr (metadata manual_run) = None
   \<and> skip_max_avg_hr (null_query\<lparr>q_max_avg_hr := Some 180\<rparr>) (metadata manual_run) = Inr True
   \<and> keep_doc (null_query\<lparr>q_max_avg_hr := Some 180\<rparr>) (metadata manual_run) = Inr False
   \<and> skip_min_avg_hr (null_query\<lparr>q_min_avg_hr := Some 120\<rparr>) (metadata manual_run) = Inr True
   \<and> keep_doc (null_query\<lparr>q_min_avg_hr := Some 120\<rparr>) (metadata manual_run) = Inr False"
  by (simp add: manual_run_def null_query_def keep_doc_def skip_defs truthy_defs get_default_def
      py_gt_def)

text \<open>
  The date checks compare the stored date text with the bound lexically: a document is
  skipped by the \<open>start_date\<close> check exactly when its date text is strictly below the
  bound and by the \<open>end_date\<close> check exactly when it is strictly above.
\<close>

lemma date_checks_lexical:
  assumes "m_date m = Some (PyStr d)"
  shows "skip_start_date (q\<lparr>q_start_date := Some s\<rparr>) m = Inr (s \<noteq> [] \<and> d < s)"
    and "skip_end_date (q\<lparr>q_end_date := Some e\<rparr>) m = Inr (e \<noteq> [] \<and> e < d)"
  using assms
  by (auto simp: skip_defs truthy_defs get_default_def py_gt_def)

text \<open>
  C6.  The stored date of a run is a timestamp text, \<open>2025-07-31 06:08:32\<close>, and a bound
  of the interpreter is a day, \<open>2025-07-31\<close>.  The timestamp text is lexically above the
  day it opens with, so the \<open>end_date\<close> check skips a run of the boundary day, where the
  \<open>start_date\<close> check keeps it: retrieval with that \<open>end_date\<close> returns the run of the
  day before and not the run of the day itself.
\<close>

theorem end_date_skips_run_of_that_day:
  "m_date (metadata tempo_run) = Some (PyStr ''2025-07-31 06:08:32'')
   \<and> skip_end_date (null_query\<lparr>q_end_date := Some ''2025-07-31''\<rparr>) (metadata tempo_run)
       = Inr True
   \<and> skip_start_date (null_query\<lparr>q_start_date := Some ''2025-07-31''\<rparr>) (metadata tempo_run)
       = Inr False
   \<and> document_retriever_agent two_runs (null_query\<lparr>q_end_date := Some ''2025-07-31''\<rparr>)
       = Inr [easy_run]"
  by code_simp

lemma keep_doc_falsy:
  "keep_doc (q\<lparr>q_type := Some []\<rparr>) = keep_doc (q\<lparr>q_type := None\<rparr>)"
  "keep_doc (q\<lparr>q_min_avg_hr := Some 0\<rparr>) = keep_doc (q\<lparr>q_min_avg_hr := None\<rparr>)"
  "keep_doc (q\<lparr>q_max_avg_hr := Some 0\<rparr>) = keep_doc (q\<lparr>q_max_avg_hr := None\<rparr>)"
  "keep_doc (q\<lparr>q_distance_km := Some 0\<rparr>) = keep_doc (q\<lparr>q_distance_km := None\<rparr>)"
  "keep_doc (q\<lparr>q_last_n_runs := Some 0\<rparr>) = keep_doc (q\<lparr>q_last_n_runs := None\<rparr>)"
  "keep_doc (q\<lparr>q_run_names := Some []\<rparr>) = keep_doc (q\<lparr>q_run_names := None\<rparr>)"
  "keep_doc (q\<lparr>q_last_n_runs := n\<rparr>) = keep_doc q"
  by (rule ext, simp add: keep_doc_def skip_defs truthy_defs)+

lemma post_filter_cong: "keep_doc q = keep_doc q' \<Longrightarrow> post_filter q ds = post_filter q' ds"
  by (induction ds) (simp_all cong: sum.case_cong)

lemma retrieve_runs_falsy:
  "retrieve_runs vs (q\<lparr>q_type := Some []\<rparr>) k = retrieve_runs vs (q\<lparr>q_type := None\<rparr>) k"
  "retrieve_runs vs (q\<lparr>q_min_avg_hr := Some 0\<rparr>) k = retrieve_runs vs (q\<lparr>q_min_avg_hr := None\<rparr>) k"
  "retrieve_runs vs (q\<lparr>q_max_avg_hr := Some 0\<rparr>) k = retrieve_runs vs (q\<lparr>q_max_avg_hr := None\<rparr>) k"
  "retrieve_runs vs (q\<lparr>q_distance_km := Some 0\<rparr>) k = retrieve_runs vs (q\<lparr>q_distance_km := None\<rparr>) k"
  "retrieve_runs vs (q\<lparr>q_last_n_runs := Some 0\<rparr>) k = retrieve_runs vs (q\<lparr>q_last_n_runs := None\<rparr>) k"
  "retrieve_runs vs (q\<lparr>q_run_names := Some []\<rparr>) k = retrieve_runs vs (q\<lparr>q_run_names := None\<rparr>) k"
  by (simp_all add: retrieve_runs_def truthy_defs post_filter_cong [OF keep_doc_falsy(1)]
      post_filter_cong [OF keep_doc_falsy(2)] post_filter_cong [OF keep_doc_falsy(3)]
      post_filter_cong [OF keep_doc_falsy(4)] post_filter_cong [OF keep_doc_falsy(5)]
      post_filter_cong [OF keep_doc_falsy(6)] cong: sum.case_cong)

text \<open>
  C10.  A filter field holding a falsy value (\<open>""\<close>, \<open>0\<close>, \<open>[]\<close>) gives the same
  retrieval as the field set to null: its constraint is not applied, \<open>last_n_runs = 0\<close>
  neither sorts nor truncates, and an empty \<open>run_names\<close> takes the general filter path.
\<close>

theorem falsy_filter_values_are_absent:
  "document_retriever_agent vs (q\<lparr>q_type := Some []\<rparr>) = document_retriever_agent vs (q\<lparr>q_type := None\<rparr>)
 \<and> document_retriever_agent vs (q\<lparr>q_min_avg_hr := Some 0\<rparr>) = document_retriever_agent vs (q\<lparr>q_min_avg_hr := None\<rparr>)
 \<and> document_retriever_agent vs (q\<lparr>q_max_avg_hr := Some 0\<rparr>) = document_retriever_agent vs (q\<lparr>q_max_avg_hr := None\<rparr>)
 \<and> document_retriever_agent vs (q\<lparr>q_distance_km := Some 0\<rparr>) = document_retriever_agent vs (q\<lparr>q_distance_km := None\<rparr>)
 \<and> document_retriever_agent vs (q\<lparr>q_last_n_runs := Some 0\<rparr>) = document_retriever_agent vs (q\<lparr>q_last_n_runs := None\<rparr>)
 \<and> document_retriever_agent vs (q\<lparr>q_run_names := Some []\<rparr>) = document_retriever_agent vs (q\<lparr>q_run_names := None\<rparr>)
 \<and> retrieve_runs vs (q\<lparr>q_last_n_runs := Some 0\<rparr>) k =
     (case post_filter q (similarity_search vs (truthy_str (q_type q)) (k * 3)) of
        Inl e \<Rightarrow> Inl e | Inr filtered_docs \<Rightarrow> Inr (take k filtered_docs))
 \<and> document_retriever_agent vs (q\<lparr>q_type := None, q_run_names := Some []\<rparr>) =
     (case retrieve_runs vs (q\<lparr>q_type := None, q_run_names := Some []\<rparr>) 20 of
        Inl e \<Rightarrow> Inl e
      | Inr retrieved_docs \<Rightarrow> if retrieved_docs = [] then get_latest_runs vs 5 else Inr retrieved_docs)"
proof (intro conjI)
  show "document_retriever_agent vs (q\<lparr>q_type := Some []\<rparr>) = document_retriever_agent vs (q\<lparr>q_type := None\<rparr>)"
    by (simp add: document_retriever_agent_def retrieve_runs_falsy(1) split: option.splits)
  show "document_retriever_agent vs (q\<lparr>q_min_avg_hr := Some 0\<rparr>) = document_retriever_agent vs (q\<lparr>q_min_avg_hr := None\<rparr>)"
    by (simp add: document_retriever_agent_def retrieve_runs_falsy(2) split: option.splits)
  show "document_retriever_agent vs (q\<lparr>q_max_avg_hr := Some 0\<rparr>) = document_retriever_agent vs (q\<lparr>q_max_avg_hr := None\<rparr>)"
    by (simp add: document_retriever_agent_def retrieve_runs_falsy(3) split: option.splits)
  show "document_retriever_agent vs (q\<lparr>q_distance_km := Some 0\<rparr>) = document_retriever_agent vs (q\<lparr>q_distance_km := None\<rparr>)"
    by (simp add: document_retriever_agent_def retrieve_runs_falsy(4) split: option.splits)
  show "document_retriever_agent vs (q\<lparr>q_last_n_runs := Some 0\<rparr>) = document_retriever_agent vs (q\<lparr>q_last_n_runs := None\<rparr>)"
    by (simp add: document_retriever_agent_def retrieve_runs_falsy(5) split: option.splits)
  show "document_retriever_agent vs (q\<lparr>q_run_names := Some []\<rparr>) = document_retriever_agent vs (q\<lparr>q_run_names := None\<rparr>)"
    by (simp add: document_retriever_agent_def retrieve_runs_falsy(6) truthy_list_def)
  show "retrieve_runs vs (q\<lparr>q_last_n_runs := Some 0\<rparr>) k =
     (case post_filter q (similarity_search vs (truthy_str (q_type q)) (k * 3)) of
        Inl e \<Rightarrow> Inl e | Inr filtered_docs \<Rightarrow> Inr (take k filtered_docs))"
    by (simp add: retrieve_runs_def truthy_int_def post_filter_cong [OF keep_doc_falsy(7)] split: sum.splits)
  show "document_retriever_agent vs (q\<lparr>q_type := None, q_run_names := Some []\<rparr>) =
     (case retrieve_runs vs (q\<lparr>q_type := None, q_run_names := Some []\<rparr>) 20 of
        Inl e \<Rightarrow> Inl e
      | Inr retrieved_docs \<Rightarrow> if retrieved_docs = [] then get_latest_runs vs 5 else Inr retrieved_docs)"
    by (simp add: document_retriever_agent_def truthy_list_def)
qed

section \<open>Name lookup, the fallback and last-N selection\<close>

lemma starts_with_iff: "starts_with s p \<longleftrightarrow> (\<exists>suf. s = p @ suf)"
  by (induction s p rule: starts_with.induct) auto

lemma py_in_iff: "py_in sub s \<longleftrightarrow> (\<exists>pre suf. s = pre @ sub @ suf)"
proof (induction s)
  case Nil
  then show ?case by auto
next
  case (Cons c cs)
  show ?case
  proof
    assume "py_in sub (c # cs)"
    then consider "starts_with (c # cs) sub" | "py_in sub cs" by auto
    then show "\<exists>pre suf. c # cs = pre @ sub @ suf"
    proof cases
      case 1
      then obtain suf where "c # cs = sub @ suf" by (auto simp: starts_with_iff)
      then have "c # cs = [] @ sub @ suf" by simp
      then show ?thesis by blast
    next
      case 2
      then obtain pre suf where "cs = pre @ sub @ suf" using Cons.IH by auto
      then have "c # cs = (c # pre) @ sub @ suf" by simp
      then show ?thesis by blast
    qed
  next
    assume "\<exists>pre suf. c # cs = pre @ sub @ suf"
    then obtain pre suf where e: "c # cs = pre @ sub @ suf" by auto
    show "py_in sub (c # cs)"
    proof (cases pre)
      case Nil
      with e have "starts_with (c # cs) sub" by (auto simp: starts_with_iff)
      then show ?thesis by simp
    next
      case (Cons a pre')
      with e have "cs = pre' @ sub @ suf" by simp
      then have "py_in sub cs" using Cons.IH by blast
      then show ?thesis by simp
    qed
  qed
qed

lemma matching_docs_filter:
  assumes "names \<noteq> []" "list_all has_str_name ds"
  shows "matching_docs names ds
         = Inr (filter (\<lambda>d. list_ex (\<lambda>n. py_in (lower n) (lower (name_str d))) names) ds)"
  using assms
  by (induction ds)
     (auto simp: name_matches_def has_str_name_def name_str_def split: pyval.splits)

lemma has_ascii_name_str: "list_all has_ascii_name ds \<Longrightarrow> list_all has_str_name ds"
  by (auto simp: list_all_iff has_ascii_name_def has_str_name_def split: pyval.splits)

text \<open>
  C2 (as amended).  When \<open>run_names\<close> is a non-empty list, \<open>type\<close> is not \<open>sync\<close>, and
  the requested names and the stored names are ASCII strings, retrieval looks at no other
  field of the query: it returns, in enumeration order, the stored documents whose
  lower-cased name contains a lower-cased requested name as a contiguous substring; when
  no document matches it returns \<open>get_latest_runs(5)\<close>; on an empty store it returns the
  empty list.  When \<open>type\<close> is \<open>sync\<close> the agent retrieves nothing, whatever the names.
\<close>

theorem name_lookup_is_tier_one:
  assumes "q_run_names q = Some names" and "names \<noteq> []" and "q_type q \<noteq> Some ''sync''"
    and "list_all ascii_text names" and "list_all has_ascii_name (vs_docs vs)"
  shows "document_retriever_agent vs q =
           (if filter (\<lambda>d. list_ex (\<lambda>n. py_in (lower n) (lower (name_str d))) names) (vs_docs vs) = []
            then get_latest_runs vs 5
            else Inr (filter (\<lambda>d. list_ex (\<lambda>n. py_in (lower n) (lower (name_str d))) names)
                        (vs_docs vs)))
       \<and> document_retriever_agent (vs\<lparr>vs_docs := []\<rparr>) q = Inr []
       \<and> document_retriever_agent vs (q\<lparr>q_type := Some ''sync''\<rparr>) = Inr []
       \<and> py_in a b = (\<exists>pre suf. b = pre @ a @ suf)"
  using assms(1-3) has_ascii_name_str [OF assms(5)]
  by (simp add: document_retriever_agent_def truthy_list_def get_runs_by_names_def
      matching_docs_filter get_latest_runs_def py_in_iff)

theorem name_lookup_is_tier_one_witness:
  "document_retriever_agent two_runs
     (null_query\<lparr>q_last_n_runs := Some 3, q_run_names := Some [''TEMPO run'']\<rparr>) = Inr [tempo_run]"
proof -
  let ?q = "null_query\<lparr>q_last_n_runs := Some 3, q_run_names := Some [''TEMPO run'']\<rparr>"
  have h: "q_run_names ?q = Some [''TEMPO run'']" "[''TEMPO run''] \<noteq> []"
    "q_type ?q \<noteq> Some ''sync''"
    by (simp_all add: null_query_def)
  have a: "list_all ascii_text [''TEMPO run'']" "list_all has_ascii_name (vs_docs two_runs)"
    by code_simp+
  have f: "filter (\<lambda>d. list_ex (\<lambda>n. py_in (lower n) (lower (name_str d))) [''TEMPO run''])
             (vs_docs two_runs) = [tempo_run]"
    by code_simp
  show ?thesis
    using name_lookup_is_tier_one [OF h a] f by simp
qed

text \<open>
  C2 as stated fails for a \<open>run_names\<close> that is non-null but empty: the query below also
  sets \<open>type\<close>, the general filter path runs and applies the type filter, and the result
  is neither the (empty) list of name matches nor the latest-runs fallback.
\<close>

theorem name_lookup_counterexample:
  "q_run_names (null_query\<lparr>q_type := Some ''Easy'', q_run_names := Some []\<rparr>) \<noteq> None
   \<and> document_retriever_agent two_runs (null_query\<lparr>q_type := Some ''Easy'', q_run_names := Some []\<rparr>)
       = Inr [easy_run]
   \<and> matching_docs [] (vs_docs two_runs) = Inr []
   \<and> get_latest_runs two_runs 5 = Inr [tempo_run, easy_run]"
  by code_simp

text \<open>
  C3.  The store below holds a run with a timestamp and a manually entered run without
  one; no run has type \<open>Interval\<close>, so the query matches nothing and the fallback runs.
  Its sort compares a datetime key with a string key, and the retrieval ends in
  \<open>TypeError\<close> although the store is not empty.
\<close>

theorem latest_runs_fallback_fails_on_mixed_dates:
  "vs_docs mixed_runs \<noteq> []
   \<and> retrieve_runs mixed_runs (null_query\<lparr>q_type := Some ''Interval''\<rparr>) 20 = Inr []
   \<and> get_latest_runs mixed_runs 5 = Inl TypeError
   \<and> document_retriever_agent mixed_runs (null_query\<lparr>q_type := Some ''Interval''\<rparr>) = Inl TypeError"
  by code_simp












section \<open>The query interpreter\<close>

lemma cleaned_output_fenced:
  "cleaned_output (''```json'' @ [newline] @ ''{}'' @ [newline] @ ''```'') = ''{}''"
  by code_simp

text \<open>
  C8 (as amended).  For an ASCII reply of the model, one call of \<open>interpret_query\<close>
  invokes the model once, whatever the reply.  The call raises exactly when
  \<open>json.loads\<close> rejects the cleaned reply, that is when the cleaned text is not valid
  JSON; the error is a \<open>ValueError\<close> whose message ends with the cleaned text, and no
  query is returned in its place.  When the cleaned text is valid JSON the value of
  \<open>json.loads\<close> is returned as it is, whether or not it is the structured object that
  was asked for.
\<close>

theorem interpret_query_parse_failure:
  assumes "ascii_text (llm calls user_text)"
  shows "snd (interpret_query loads llm user_text calls) = Suc calls
   \<and> fst (interpret_query loads llm user_text calls)
       = (case loads (cleaned_output (llm calls user_text)) of
            None \<Rightarrow> Inl (ValueError (''Failed to parse Gemini output as JSON:'' @ [newline]
                                      @ cleaned_output (llm calls user_text)))
          | Some query_dict \<Rightarrow> Inr query_dict)
   \<and> isl (fst (interpret_query loads llm user_text calls))
       = (loads (cleaned_output (llm calls user_text)) = None)"
  by (simp add: interpret_query_def Let_def split: option.splits)

theorem interpret_query_parse_failure_witness:
  "ascii_text (refusal_reply 0 ''how was my last run'')
   \<and> interpret_query loads_integer refusal_reply ''how was my last run'' 0
       = (Inl (ValueError (''Failed to parse Gemini output as JSON:'' @ [newline]
                           @ ''Sorry, I cannot help with that.'')), 1)"
proof -
  have h: "ascii_text (refusal_reply 0 ''how was my last run'')"
    by code_simp
  have c: "cleaned_output (refusal_reply 0 ''how was my last run'')
           = ''Sorry, I cannot help with that.''"
    by code_simp
  have e: "loads_integer ''Sorry, I cannot help with that.'' = None"
    by code_simp
  show ?thesis
    using h c e
      interpret_query_parse_failure [where llm = refusal_reply and calls = 0
        and user_text = "''how was my last run''" and loads = loads_integer]
    by (simp add: prod_eq_iff)
qed

text \<open>
  C8 as stated fails for a reply that is valid JSON and not the structured object: the
  model answers \<open>42\<close>, \<open>json.loads\<close> reads the number, and the call returns it as the
  query with no error.
\<close>

theorem interpret_query_counterexample:
  "cleaned_output (number_reply 0 ''how was my last run'') = ''42''
   \<and> loads_integer ''42'' = Some (JNum 42)
   \<and> interpret_query loads_integer number_reply ''how was my last run'' 0 = (Inr (JNum 42), 1)"
  by code_simp

section \<open>The normaliser\<close>

lemma pace_of_positive_mean:
  "nanmean sel = Fin v \<Longrightarrow> 0 < v \<Longrightarrow> pace_of sel = Fin ((1000 / v) / 60)"
  by (simp add: pace_of_def)

lemma pace_of_zero_mean: "nanmean sel = Fin 0 \<Longrightarrow> pace_of sel = PInf"
  by (simp add: pace_of_def)

lemma pace_of_absent_stream: "masked pace_of msk [] = Inr None"
  by (simp add: masked_def)

text \<open>
  C9.  The run below covers one kilometre with velocity samples that are all zero.  The
  mean velocity of the bucket is zero, and the pace of its row is the infinity of the
  division \<open>1000 / 0.0\<close>, not null.
\<close>

theorem km_pace_of_zero_velocity:
  "km_wise_data stalled_run
     = Inr [\<lparr>KM = 1, Avg_HR = None, Avg_Cadence = None, Avg_Power = None,
              Avg_Pace_min_per_km = Some PInf, Elevation_Gain_m = None\<rparr>]
   \<and> nanmean [Some 0, Some 0] = Fin 0"
  by code_simp

section \<open>Lines of a context\<close>

lemma strip_ends: "strip s = [] \<or> (\<not> is_space (hd (strip s)) \<and> \<not> is_space (last (strip s)))"
proof (cases "dropWhile is_space s = []")
  case True
  have "strip s = []" unfolding strip_def True by simp
  then show ?thesis by simp
next
  case False
  define u where "u = dropWhile is_space s"
  define v where "v = dropWhile is_space (rev u)"
  have u: "u \<noteq> []" "\<not> is_space (hd u)"
    using False by (simp_all add: u_def hd_dropWhile)
  have "hd u \<in> set (rev u)" using u(1) by simp
  then have v: "v \<noteq> []"
    using u(2) unfolding v_def by (metis dropWhile_eq_Nil_conv)
  then have hv: "\<not> is_space (hd v)"
    unfolding v_def by (simp add: hd_dropWhile)
  obtain w where w: "rev u = w @ v"
    unfolding v_def by (metis takeWhile_dropWhile_id)
  have "last v = last (rev u)" using w v by simp
  then have lv: "last v = hd u" using u(1) by (simp add: last_rev)
  have s: "strip s = rev v" by (simp add: strip_def u_def v_def)
  have "hd (rev v) = last v" using v by (simp add: hd_rev)
  moreover have "last (rev v) = hd v" using v by (simp add: last_rev)
  ultimately show ?thesis using s v hv lv u(2) by simp
qed

lemma strip_id: "s = [] \<or> (\<not> is_space (hd s) \<and> \<not> is_space (last s)) \<Longrightarrow> strip s = s"
proof (cases s)
  case Nil
  then show ?thesis by (simp add: strip_def)
next
  case (Cons a t)
  assume "s = [] \<or> (\<not> is_space (hd s) \<and> \<not> is_space (last s))"
  with Cons have a: "\<not> is_space a" and l: "\<not> is_space (last s)" by auto
  have "dropWhile is_space s = s" using Cons a by simp
  moreover have "rev s \<noteq> []" "hd (rev s) = last s" using Cons by (simp_all add: hd_rev)
  then obtain y ys where "rev s = y # ys" "y = last s" by (cases "rev s") auto
  then have "dropWhile is_space (rev s) = rev s" using l by (metis dropWhile.simps(2))
  ultimately show ?thesis by (simp add: strip_def)
qed

lemma strip_strip: "strip (strip s) = strip s"
  using strip_ends [of s] by (intro strip_id) auto

lemma nonblank_Cons: "nonblank (l # ls) = (if strip l = [] then nonblank ls else strip l # nonblank ls)"
  by (simp add: nonblank_def)

lemma nonblank_append: "nonblank (xs @ ys) = nonblank xs @ nonblank ys"
  by (simp add: nonblank_def)

lemma parse_lines_nonblank: "parse_lines cur (nonblank ls) = parse_lines cur ls"
proof (induction ls arbitrary: cur)
  case Nil
  then show ?case by (simp add: nonblank_def)
next
  case (Cons l ls)
  show ?case
    by (simp add: nonblank_Cons Let_def strip_strip Cons.IH cong: sum.case_cong option.case_cong)
qed

lemma parse_lines_cong: "nonblank ls = nonblank ls' \<Longrightarrow> parse_lines cur ls = parse_lines cur ls'"
  by (metis parse_lines_nonblank)

lemma is_linebreak_newline: "is_linebreak newline"
  by (simp add: is_linebreak_def newline_def)

lemma nonblank_splitlines_append:
  "nonblank (splitlines (a @ newline # b)) = nonblank (splitlines a) @ nonblank (splitlines b)"
proof (induction a rule: splitlines.induct)
  case 1
  have "splitlines (newline # b) = [] # splitlines b"
    by (simp add: is_linebreak_def after_break_def newline_def)
  then show ?case by (simp add: nonblank_def strip_def)
next
  case (2 x xs)
  let ?a = "x # xs"
  let ?l = "takeWhile (\<lambda>c. \<not> is_linebreak c) ?a"
  let ?d = "dropWhile (\<lambda>c. \<not> is_linebreak c) ?a"
  have tw: "takeWhile (\<lambda>c. \<not> is_linebreak c) (?a @ newline # b) = ?l"
    by (metis (mono_tags, lifting) is_linebreak_newline takeWhile_append1 takeWhile_append2
        takeWhile_eq_all_conv takeWhile_dropWhile_id append_Nil2 takeWhile.simps(2) list.set_intros(1)
        takeWhile_tail)
  show ?case
  proof (cases ?d)
    case Nil
    then have all: "\<forall>c\<in>set ?a. \<not> is_linebreak c" by (metis dropWhile_eq_Nil_conv)
    then have "dropWhile (\<lambda>c. \<not> is_linebreak c) (?a @ newline # b)
               = dropWhile (\<lambda>c. \<not> is_linebreak c) (newline # b)"
      by (intro dropWhile_append2) auto
    then have dw: "dropWhile (\<lambda>c. \<not> is_linebreak c) (?a @ newline # b) = newline # b"
      by (simp add: is_linebreak_newline del: append_Cons)
    have l: "?l = ?a" using all by (metis takeWhile_eq_all_conv)
    have 1: "splitlines ?a = [?a]" using Nil by simp
    have "splitlines ((x # xs) @ newline # b) = ?l # splitlines (after_break newline b)"
      using dw tw by (simp del: dropWhile.simps takeWhile.simps)
    then have 2: "splitlines (?a @ newline # b) = ?a # splitlines b"
      using l by (simp add: after_break_def newline_def)
    show ?thesis unfolding 1 2 by (simp add: nonblank_def)
  next
    case (Cons c r)
    have dw: "dropWhile (\<lambda>c. \<not> is_linebreak c) (?a @ newline # b) = c # (r @ newline # b)"
      using Cons by (metis (no_types, lifting) append_Cons dropWhile_append1 dropWhile_eq_Nil_conv
          list.distinct(1))
    have 1: "splitlines ?a = ?l # splitlines (after_break c r)" using Cons by simp
    have 2: "splitlines (?a @ newline # b) = ?l # splitlines (after_break c (r @ newline # b))"
      using dw tw by (simp del: dropWhile.simps takeWhile.simps)
    show ?thesis
    proof (cases "c = CHR 0x0D \<and> r = []")
      case True
      then have "after_break c (r @ newline # b) = b" "after_break c r = []"
        by (simp_all add: after_break_def)
      then show ?thesis unfolding 1 2 by (simp add: nonblank_def)
    next
      case False
      then have "after_break c (r @ newline # b) = after_break c r @ newline # b"
        by (cases r) (auto simp: after_break_def)
      then show ?thesis
        unfolding 1 2 using "2.IH" [OF Cons] by (simp add: nonblank_def)
    qed
  qed
qed

lemma parse_lines_no_header:
  assumes "list_all (\<lambda>l. \<not> match_date (strip l)) pre"
  shows "parse_lines cur (pre @ post)
         = (case parse_lines cur post of
              Inl e \<Rightarrow> Inl e
            | Inr rs \<Rightarrow> Inr (map (mk_row cur) (concat (map line_entry pre)) @ rs))"
  using assms
proof (induction pre)
  case Nil
  then show ?case by (simp split: sum.splits)
next
  case (Cons l pre)
  then have nh: "\<not> match_date (strip l)" and rest: "list_all (\<lambda>l. \<not> match_date (strip l)) pre"
    by simp_all
  note IH = Cons.IH [OF rest]
  show ?case
  proof (cases "starts_with (strip l) ''KM''")
    case True
    then have ne: "strip l \<noteq> []" by auto
    have le: "line_entry l = (case parse_km_line (strip l) of None \<Rightarrow> [] | Some k \<Rightarrow> [k])"
      using True by (simp add: line_entry_def)
    show ?thesis
      using nh True ne IH le
      by (auto simp: Let_def split: option.splits sum.splits)
  next
    case False
    then have le: "line_entry l = []" by (simp add: line_entry_def)
    show ?thesis
      using nh False IH le by (auto simp: Let_def split: sum.splits)
  qed
qed

lemma retype_dates_length:
  "retype_dates to_datetime rows = Inr frame \<Longrightarrow> length frame \<le> length rows"
  by (auto simp: retype_dates_def split: if_splits option.splits)

text \<open>
  C7 (as amended).  In an ASCII context, the per-KM lines that come before any header
  line are not dropped: each of them that parses gives a row of the loop, and the
  parent-level fields of that row are the defaults, the empty string for \<open>date\<close>,
  \<open>run_name\<close> and \<open>run_type\<close> and \<open>0\<close> for \<open>distance\<close>, \<open>avg_hr\<close>, \<open>avg_pace\<close>
  and \<open>total_elevation\<close>.  The frame of a context with no header line holds these rows,
  their empty date texts retyped by \<open>pd.to_datetime\<close>.
\<close>

theorem orphan_rows_take_defaults:
  assumes "ascii_text (pre @ post)"
    and "list_all (\<lambda>l. \<not> match_date (strip l)) (splitlines pre)"
  shows "context_rows (pre @ newline # post)
           = (case context_rows post of
                Inl e \<Rightarrow> Inl e
              | Inr rs \<Rightarrow> Inr (map (mk_row None) (km_entries pre) @ rs))
       \<and> context_rows pre = Inr (map (mk_row None) (km_entries pre))
       \<and> context_to_dataframe to_datetime pre
           = retype_dates to_datetime (map (mk_row None) (km_entries pre))
       \<and> r_date (mk_row None k) = [] \<and> r_run_name (mk_row None k) = []
       \<and> r_run_type (mk_row None k) = [] \<and> r_distance (mk_row None k) = 0
       \<and> r_avg_hr (mk_row None k) = 0 \<and> r_avg_pace (mk_row None k) = 0
       \<and> r_total_elevation (mk_row None k) = 0"
proof -
  note nh = assms(2)
  have "nonblank (splitlines (pre @ newline # post)) = nonblank (splitlines pre @ splitlines post)"
    by (simp add: nonblank_splitlines_append nonblank_append)
  then have "context_rows (pre @ newline # post)
             = parse_lines None (splitlines pre @ splitlines post)"
    unfolding context_rows_def by (rule parse_lines_cong)
  then have 1: "context_rows (pre @ newline # post)
           = (case context_rows post of
                Inl e \<Rightarrow> Inl e
              | Inr rs \<Rightarrow> Inr (map (mk_row None) (km_entries pre) @ rs))"
    using parse_lines_no_header [OF nh, of None "splitlines post"]
    by (simp add: context_rows_def km_entries_def split: sum.splits)
  have 2: "context_rows pre = Inr (map (mk_row None) (km_entries pre))"
    using parse_lines_no_header [OF nh, of None "[]"]
    by (simp add: context_rows_def km_entries_def)
  have 3: "context_to_dataframe to_datetime pre
           = retype_dates to_datetime (map (mk_row None) (km_entries pre))"
    by (simp add: context_to_dataframe_def 2)
  show ?thesis using 1 2 3 by (simp add: mk_row_def)
qed

theorem orphan_rows_take_defaults_witness:
  "ascii_text (orphan_context @ [])
   \<and> list_all (\<lambda>l. \<not> match_date (strip l)) (splitlines orphan_context)
   \<and> context_rows orphan_context = Inr (map (mk_row None) (km_entries orphan_context))
   \<and> length (km_entries orphan_context) = 1"
proof -
  have h: "ascii_text (orphan_context @ [])"
    "list_all (\<lambda>l. \<not> match_date (strip l)) (splitlines orphan_context)"
    by code_simp+
  have k: "length (km_entries orphan_context) = 1"
    by code_simp
  show ?thesis
    using h k orphan_rows_take_defaults [OF h, of to_datetime_stored] by simp
qed

text \<open>
  C7 as stated fails: a context that is one per-KM line, with no header line at all,
  deserialises to a frame of one row, whose date is \<open>NaT\<close>.
\<close>

theorem orphan_rows_counterexample:
  "context_to_dataframe to_datetime_stored orphan_context
     = Inr [\<lparr>r_date = None, r_run_name = [], r_run_type = [], r_km = 1,
              r_pace = 8409 / 1000, r_hr = 17753 / 125, r_power = 87537 / 500,
              r_elevation_gain = 42 / 5, r_distance = 0, r_avg_hr = 0,
              r_avg_pace = 0, r_total_elevation = 0\<rparr>]
   \<and> stored_text []"
  by code_simp

section \<open>The round trip through the context\<close>

lemma py_split_none: "c \<notin> set a \<Longrightarrow> py_split c a = [a]"
  by (induction a) auto

lemma py_split_append: "c \<notin> set a \<Longrightarrow> py_split c (a @ c # rest) = a # py_split c rest"
  by (induction a) auto

lemma first_num_mid:
  assumes "list_all (\<lambda>c. \<not> is_num_char c) pre" and "t \<noteq> []" and "list_all is_num_char t"
    and "post = [] \<or> \<not> is_num_char (hd post)"
  shows "first_num (pre @ t @ post) = t"
proof -
  have "dropWhile (\<lambda>c. \<not> is_num_char c) (pre @ t @ post)
        = dropWhile (\<lambda>c. \<not> is_num_char c) (t @ post)"
    using assms(1) by (intro dropWhile_append2) (auto simp: list_all_iff)
  also have "\<dots> = t @ post"
    using assms(2,3) by (cases t) auto
  finally have d: "dropWhile (\<lambda>c. \<not> is_num_char c) (pre @ t @ post) = t @ post" .
  have "takeWhile is_num_char (t @ post) = t @ takeWhile is_num_char post"
    using assms(3) by (intro takeWhile_append2) (auto simp: list_all_iff)
  also have "takeWhile is_num_char post = []"
    using assms(4) by (cases post) auto
  finally show ?thesis by (simp add: first_num_def d)
qed

lemma strip_pad:
  assumes "n = [] \<or> (\<not> is_space (hd n) \<and> \<not> is_space (last n))"
    and "list_all is_space a" and "list_all is_space b"
  shows "strip (a @ n @ b) = n"
proof -
  have 1: "dropWhile is_space (a @ n @ b) = dropWhile is_space (n @ b)"
    using assms(2) by (intro dropWhile_append2) (auto simp: list_all_iff)
  show ?thesis
  proof (cases n)
    case Nil
    show ?thesis
      using assms(3) Nil 1 by (auto simp: strip_def list_all_iff dest: set_dropWhileD)
  next
    case (Cons x xs)
    with assms(1) have h: "\<not> is_space x" and l: "\<not> is_space (last n)" by auto
    have 2: "dropWhile is_space (n @ b) = n @ b" using Cons h by simp
    have "dropWhile is_space (rev b @ rev n) = dropWhile is_space (rev n)"
      using assms(3) by (intro dropWhile_append2) (auto simp: list_all_iff)
    moreover have "rev n = last n # tl (rev n)"
      using Cons by (metis hd_rev list.collapse rev_is_Nil_conv list.distinct(1))
    then have "dropWhile is_space (rev n) = rev n" using l by (metis dropWhile.simps(2))
    ultimately show ?thesis using 1 2 by (simp add: strip_def)
  qed
qed

lemma remove_all_none: "\<not> py_in pat s \<Longrightarrow> remove_all pat s = s"
  by (induction s) auto

lemma starts_with_append: "starts_with (p @ t) p"
  by (induction p) auto

lemma remove_all_prefix:
  assumes "pat \<noteq> []"
  shows "remove_all pat (pat @ t) = remove_all pat t"
proof -
  obtain a list where e: "pat @ t = a # list"
    using assms by (cases "pat @ t") auto
  have "starts_with (a # list) pat"
    using starts_with_append [of pat t] e by simp
  then have "remove_all pat (a # list) = remove_all pat (drop (length pat) (a # list))"
    using assms by simp
  also have "drop (length pat) (a # list) = t"
    using e by (metis append_eq_conv_conj)
  finally show ?thesis using e by simp
qed

lemma match_date_append: "match_date dt \<Longrightarrow> match_date (dt @ x)"
  by (auto simp: match_date_def nth_append)

lemma is_digit_range: "is_digit c \<longleftrightarrow> 48 \<le> (of_char c :: nat) \<and> (of_char c :: nat) \<le> 57"
  by (simp add: is_digit_def less_eq_char_def)

lemma num_char_plain:
  assumes "is_num_char c"
  shows "c \<noteq> CHR ''|''" "\<not> is_linebreak c" "\<not> is_space c"
  using assms
  by (auto simp: is_num_char_def is_digit_range is_linebreak_def is_space_def)

lemma digit_not_space: "is_digit c \<Longrightarrow> \<not> is_space c"
  by (auto simp: is_digit_range is_space_def)

lemma field_text_no_bar: "field_text s \<Longrightarrow> CHR ''|'' \<notin> set s"
  by (auto simp: field_text_def list_all_iff)

lemma field_text_no_break: "field_text s \<Longrightarrow> list_all (\<lambda>c. \<not> is_linebreak c) s"
  by (auto simp: field_text_def list_all_iff)

lemma num_no_bar: "list_all is_num_char s \<Longrightarrow> CHR ''|'' \<notin> set s"
  using num_char_plain(1) by (auto simp: list_all_iff)

lemma num_no_break: "list_all is_num_char s \<Longrightarrow> list_all (\<lambda>c. \<not> is_linebreak c) s"
  using num_char_plain(2) by (auto simp: list_all_iff)

lemma num_field_mid:
  assumes "list_all (\<lambda>c. \<not> is_num_char c) pre" and "t \<noteq> []" and "list_all is_num_char t"
    and "post = [] \<or> \<not> is_num_char (hd post)" and "py_float t = Some v"
  shows "num_field (pre @ t @ post) = Inr v"
  using first_num_mid [OF assms(1-4)] assms(2,5) by (simp add: num_field_def)

lemma header_line:
  fixes dt n t D P H E :: string
  defines "p0 \<equiv> dt @ '' ''"
    and "p1 \<equiv> '' '' @ n @ '' ''"
    and "p2 \<equiv> '' Distance: '' @ D @ '' km ''"
    and "p3 \<equiv> '' Pace: '' @ P @ '' min/km ''"
    and "p4 \<equiv> '' Avg HR: '' @ H @ '' bpm ''"
    and "p5 \<equiv> '' Elevation: '' @ E @ '' m ''"
    and "p6 \<equiv> '' Type: '' @ t"
  defines "line \<equiv> dt @ '' | '' @ n @ '' | '' @ ''Distance: '' @ D @ '' km | ''
     @ ''Pace: '' @ P @ '' min/km | '' @ ''Avg HR: '' @ H @ '' bpm | ''
     @ ''Elevation: '' @ E @ '' m | '' @ ''Type: '' @ t"
  assumes dt: "match_date dt" "field_text dt" "\<not> is_space (last dt)"
    and n: "field_text n" "strip n = n"
    and t: "field_text t" "t \<noteq> []" "\<not> is_space (last t)" "\<not> py_in ''Type: '' t"
    and D: "D \<noteq> []" "list_all is_num_char D" "py_float D = Some vd"
    and P: "P \<noteq> []" "list_all is_num_char P" "py_float P = Some vp"
    and H: "H \<noteq> []" "list_all is_num_char H" "py_float H = Some vh"
    and E: "E \<noteq> []" "list_all is_num_char E" "py_float E = Some ve"
  shows "strip line = line" and "line \<noteq> []" and "match_date line"
    and "list_all (\<lambda>c. \<not> is_linebreak c) line"
    and "py_split CHR ''|'' line = [p0, p1, p2, p3, p4, p5, p6]"
    and "parse_header [p0, p1, p2, p3, p4, p5, p6]
         = Inr \<lparr>h_date = dt, h_run_name = n, h_distance = vd, h_avg_pace = vp, h_avg_hr = vh,
                h_total_elevation = ve, h_run_type = t\<rparr>"
proof -
  have dne: "dt \<noteq> []" "is_digit (hd dt)"
    using dt(1) by (cases dt; auto simp: match_date_def)+
  have hd_line: "hd line = hd dt" using dne by (simp add: line_def)
  have last_line: "last line = last t" using t(2) by (simp add: line_def)
  show ne: "line \<noteq> []" using dne by (simp add: line_def)
  show "strip line = line"
    using hd_line last_line digit_not_space [OF dne(2)] t(3) by (intro strip_id) simp
  show "match_date line"
    unfolding line_def by (rule match_date_append) (rule dt(1))
  show "list_all (\<lambda>c. \<not> is_linebreak c) line"
    using field_text_no_break [OF dt(2)] field_text_no_break [OF n(1)]
      field_text_no_break [OF t(1)] num_no_break [OF D(2)] num_no_break [OF P(2)]
      num_no_break [OF H(2)] num_no_break [OF E(2)]
    by (simp add: line_def is_linebreak_def)
  have e: "line = p0 @ CHR ''|'' # p1 @ CHR ''|'' # p2 @ CHR ''|'' # p3 @ CHR ''|'' # p4
                  @ CHR ''|'' # p5 @ CHR ''|'' # p6"
    by (simp add: line_def p0_def p1_def p2_def p3_def p4_def p5_def p6_def)
  have nb: "CHR ''|'' \<notin> set p0" "CHR ''|'' \<notin> set p1" "CHR ''|'' \<notin> set p2"
    "CHR ''|'' \<notin> set p3" "CHR ''|'' \<notin> set p4" "CHR ''|'' \<notin> set p5" "CHR ''|'' \<notin> set p6"
    using field_text_no_bar [OF dt(2)] field_text_no_bar [OF n(1)] field_text_no_bar [OF t(1)]
      num_no_bar [OF D(2)] num_no_bar [OF P(2)] num_no_bar [OF H(2)] num_no_bar [OF E(2)]
    by (simp_all add: p0_def p1_def p2_def p3_def p4_def p5_def p6_def)
  show "py_split CHR ''|'' line = [p0, p1, p2, p3, p4, p5, p6]"
    unfolding e by (simp only: py_split_append nb py_split_none not_False_eq_True)
  have s0: "strip p0 = dt"
    using strip_pad [of dt "[]" "'' ''"] dne digit_not_space [OF dne(2)] dt(3)
    by (simp add: p0_def is_space_def)
  have "n = [] \<or> (\<not> is_space (hd n) \<and> \<not> is_space (last n))"
    using strip_ends [of n] n(2) by simp
  then have s1: "strip p1 = n"
    using strip_pad [of n "'' ''" "'' ''"] by (simp add: p1_def is_space_def)
  have "\<not> is_space (hd (''Type: '' @ t))" "\<not> is_space (last (''Type: '' @ t))"
    using t(2,3) by (simp_all add: is_space_def)
  then have "strip p6 = ''Type: '' @ t"
    using strip_pad [of "''Type: '' @ t" "'' ''" "[]"] by (simp add: p6_def is_space_def)
  then have s6: "remove_all ''Type: '' (strip p6) = t"
    using remove_all_prefix [of "''Type: ''" t] remove_all_none [OF t(4)] by simp
  have nn: "list_all (\<lambda>c. \<not> is_num_char c) '' Distance: ''"
    "list_all (\<lambda>c. \<not> is_num_char c) '' Pace: ''"
    "list_all (\<lambda>c. \<not> is_num_char c) '' Avg HR: ''"
    "list_all (\<lambda>c. \<not> is_num_char c) '' Elevation: ''"
    by (simp_all add: is_num_char_def is_digit_range)
  have f2: "num_field p2 = Inr vd"
    unfolding p2_def by (rule num_field_mid [OF nn(1) D(1,2) _ D(3)])
      (simp add: is_num_char_def is_digit_range)
  have f3: "num_field p3 = Inr vp"
    unfolding p3_def by (rule num_field_mid [OF nn(2) P(1,2) _ P(3)])
      (simp add: is_num_char_def is_digit_range)
  have f4: "num_field p4 = Inr vh"
    unfolding p4_def by (rule num_field_mid [OF nn(3) H(1,2) _ H(3)])
      (simp add: is_num_char_def is_digit_range)
  have f5: "num_field p5 = Inr ve"
    unfolding p5_def by (rule num_field_mid [OF nn(4) E(1,2) _ E(3)])
      (simp add: is_num_char_def is_digit_range)
  show "parse_header [p0, p1, p2, p3, p4, p5, p6]
         = Inr \<lparr>h_date = dt, h_run_name = n, h_distance = vd, h_avg_pace = vp, h_avg_hr = vh,
                h_total_elevation = ve, h_run_type = t\<rparr>"
    by (simp add: parse_header_def f2 f3 f4 f5 s0 s1 s6)
qed

lemma summary_line_wf:
  assumes "wf_doc num_str d"
  defines "line \<equiv> summary_line num_str (metadata d)"
  shows "strip line = line" and "line \<noteq> []" and "match_date line"
    and "list_all (\<lambda>c. \<not> is_linebreak c) line"
    and "7 \<le> length (py_split CHR ''|'' line)"
    and "parse_header (py_split CHR ''|'' line) = Inr (header_of d)"
proof -
  obtain dt where dt: "m_date (metadata d) = Some (PyStr dt)" "match_date dt" "field_text dt"
      "\<not> is_space (last dt)"
    using assms(1) by (auto simp: wf_doc_def split: option.splits pyval.splits)
  obtain n where n: "m_name (metadata d) = Some (PyStr n)" "field_text n" "strip n = n"
    using assms(1) by (auto simp: wf_doc_def split: option.splits pyval.splits)
  obtain t where t: "m_type (metadata d) = Some (PyStr t)" "field_text t" "t \<noteq> []"
      "\<not> is_space (last t)" "\<not> py_in ''Type: '' t"
    using assms(1) by (auto simp: wf_doc_def split: option.splits pyval.splits)
  obtain vd where D: "m_distance (metadata d) = Some (PyNum vd)" "num_str vd \<noteq> []"
      "list_all is_num_char (num_str vd)" "py_float (num_str vd) = Some vd"
    using assms(1) by (auto simp: wf_doc_def plain_decimal_def split: option.splits pyval.splits)
  obtain vp where P: "m_pace (metadata d) = Some (PyNum vp)" "num_str vp \<noteq> []"
      "list_all is_num_char (num_str vp)" "py_float (num_str vp) = Some vp"
    using assms(1) by (auto simp: wf_doc_def plain_decimal_def split: option.splits pyval.splits)
  obtain vh where H: "m_avg_hr (metadata d) = Some (PyNum vh)" "num_str vh \<noteq> []"
      "list_all is_num_char (num_str vh)" "py_float (num_str vh) = Some vh"
    using assms(1) by (auto simp: wf_doc_def plain_decimal_def split: option.splits pyval.splits)
  obtain ve where E: "m_elevation_gain (metadata d) = Some (PyNum ve)" "num_str ve \<noteq> []"
      "list_all is_num_char (num_str ve)" "py_float (num_str ve) = Some ve"
    using assms(1) by (auto simp: wf_doc_def plain_decimal_def split: option.splits pyval.splits)
  have l: "line = dt @ '' | '' @ n @ '' | '' @ ''Distance: '' @ num_str vd @ '' km | ''
     @ ''Pace: '' @ num_str vp @ '' min/km | '' @ ''Avg HR: '' @ num_str vh @ '' bpm | ''
     @ ''Elevation: '' @ num_str ve @ '' m | '' @ ''Type: '' @ t"
    by (simp add: line_def summary_line_def py_str_def dt(1) n(1) t(1) D(1) P(1) H(1) E(1))
  have h: "header_of d = \<lparr>h_date = dt, h_run_name = n, h_distance = vd, h_avg_pace = vp,
      h_avg_hr = vh, h_total_elevation = ve, h_run_type = t\<rparr>"
    by (simp add: header_of_def date_str_def name_str_def type_str_def num_val_def get_default_def
        dt(1) n(1) t(1) D(1) P(1) H(1) E(1))
  note hl = header_line [OF dt(2-4) n(2,3) t(2-5) D(2-4) P(2-4) H(2-4) E(2-4)]
  show "strip line = line" unfolding l by (rule hl(1))
  show "line \<noteq> []" unfolding l by (rule hl(2))
  show "match_date line" unfolding l by (rule hl(3))
  show "list_all (\<lambda>c. \<not> is_linebreak c) line" unfolding l by (rule hl(4))
  show "7 \<le> length (py_split CHR ''|'' line)" unfolding l hl(5) by simp
  show "parse_header (py_split CHR ''|'' line) = Inr (header_of d)"
    unfolding l hl(5) h by (rule hl(6))
qed

lemma splitlines_single:
  assumes "s \<noteq> []" and "list_all (\<lambda>c. \<not> is_linebreak c) s"
  shows "splitlines s = [s]"
proof -
  obtain x xs where s: "s = x # xs" using assms(1) by (cases s) auto
  have "dropWhile (\<lambda>c. \<not> is_linebreak c) (x # xs) = []"
    using assms(2) unfolding s by (metis dropWhile_eq_Nil_conv list_all_iff)
  then show ?thesis unfolding s by simp
qed

lemma nonblank_join:
  "nonblank (splitlines (py_join [newline] xs)) = concat (map (\<lambda>x. nonblank (splitlines x)) xs)"
proof (induction "[newline]" xs rule: py_join.induct)
  case 1
  then show ?case by (simp add: nonblank_def)
next
  case (2 x)
  then show ?case by simp
next
  case (3 x y ys)
  have "py_join [newline] (x # y # ys) = x @ newline # py_join [newline] (y # ys)" by simp
  then show ?case using 3 by (simp add: nonblank_splitlines_append del: py_join.simps)
qed

lemma nonblank_header_line:
  assumes "strip line = line" and "line \<noteq> []" and "list_all (\<lambda>c. \<not> is_linebreak c) line"
  shows "nonblank (splitlines (newline # line)) = [line]"
proof -
  have "nonblank (splitlines ([] @ newline # line))
        = nonblank (splitlines []) @ nonblank (splitlines line)"
    by (rule nonblank_splitlines_append)
  then show ?thesis
    using assms by (simp add: splitlines_single nonblank_def)
qed

lemma line_entry_strip: "line_entry (strip l) = line_entry l"
  by (simp add: line_entry_def strip_strip)

lemma line_entry_nonblank: "concat (map line_entry (nonblank ls)) = concat (map line_entry ls)"
proof (induction ls)
  case Nil
  then show ?case by (simp add: nonblank_def)
next
  case (Cons l ls)
  have "strip l = [] \<Longrightarrow> line_entry l = []" by (simp add: line_entry_def)
  then show ?case using Cons by (auto simp: nonblank_Cons line_entry_strip)
qed

lemma no_header_nonblank:
  "list_all (\<lambda>l. \<not> match_date (strip l)) ls \<Longrightarrow> list_all (\<lambda>l. \<not> match_date (strip l)) (nonblank ls)"
proof (induction ls)
  case Nil
  then show ?case by (simp add: nonblank_def)
next
  case (Cons l ls)
  then show ?case by (auto simp: nonblank_Cons strip_strip)
qed

lemma parse_docs:
  assumes "list_all (wf_doc num_str) ds"
  shows "parse_lines cur
           (concat (map (\<lambda>d. summary_line num_str (metadata d) # nonblank (splitlines (km_data d))) ds))
         = Inr (concat (map doc_rows ds))"
  using assms
proof (induction ds arbitrary: cur)
  case Nil
  then show ?case by simp
next
  case (Cons d ds)
  then have wf: "wf_doc num_str d" and rest: "list_all (wf_doc num_str) ds" by simp_all
  let ?line = "summary_line num_str (metadata d)"
  let ?K = "nonblank (splitlines (km_data d))"
  let ?rest = "concat (map (\<lambda>d. summary_line num_str (metadata d) # nonblank (splitlines (km_data d))) ds)"
  note sl = summary_line_wf [OF wf]
  have nh: "list_all (\<lambda>l. \<not> match_date (strip l)) ?K"
    using wf by (intro no_header_nonblank) (simp add: wf_doc_def)
  have "parse_lines cur (?line # ?K @ ?rest) = parse_lines (Some (header_of d)) (?K @ ?rest)"
    using sl by (simp add: Let_def)
  also have "\<dots> = Inr (map (mk_row (Some (header_of d))) (concat (map line_entry ?K))
                       @ concat (map doc_rows ds))"
    using parse_lines_no_header [OF nh, of "Some (header_of d)" ?rest] Cons.IH [OF rest]
    by simp
  also have "map (mk_row (Some (header_of d))) (concat (map line_entry ?K)) = doc_rows d"
    by (simp add: doc_rows_def km_entries_def line_entry_nonblank)
  finally show ?case by simp
qed

lemma concat_map_concat_map:
  "concat (map f (concat (map g ds))) = concat (map (\<lambda>d. concat (map f (g d))) ds)"
  by (induction ds) auto

lemma no_docs_context: "context_rows ''No run data available.'' = Inr []"
  by code_simp

text \<open>
  C1 (as amended).  Take documents whose date, name and type are ASCII strings without
  the separator \<open>|\<close> and without line boundaries, the date opening with \<open>YYYY-MM-DD\<close>
  and ending without whitespace, the name without surrounding whitespace, the type
  non-empty, without trailing whitespace and without the text \<open>Type: \<close>; whose distance,
  pace, heart rate and elevation are numbers rendered as plain decimals that \<open>float\<close>
  reads back; and whose page content is ASCII with no line opening with a date after its
  first eight lines.  Serialising them with the per-KM breakdown and deserialising the
  context gives in the loop, in order, one row for each per-KM line of each document that
  parses: the number of rows is the sum of these counts, and every row carries the date
  text, name, type, distance, heart rate, pace and elevation of its document.  The frame
  is these rows with the date texts retyped by \<open>pd.to_datetime\<close>, and the call raises
  when \<open>pd.to_datetime\<close> does.
\<close>

theorem context_round_trip:
  assumes "list_all (wf_doc num_str) ds"
  shows "context_rows (docs_to_context num_str ds True) = Inr (concat (map doc_rows ds))
       \<and> context_to_dataframe to_datetime (docs_to_context num_str ds True)
           = retype_dates to_datetime (concat (map doc_rows ds))
       \<and> length (concat (map doc_rows ds)) = sum_list (map (\<lambda>d. length (km_entries (km_data d))) ds)
       \<and> list_all (\<lambda>r. r_date r = date_str d \<and> r_run_name r = name_str d
                        \<and> r_run_type r = type_str d
                        \<and> r_distance r = num_val (m_distance (metadata d))
                        \<and> r_avg_hr r = num_val (m_avg_hr (metadata d))
                        \<and> r_avg_pace r = num_val (m_pace (metadata d))
                        \<and> r_total_elevation r = num_val (m_elevation_gain (metadata d)))
                  (doc_rows d)"
proof -
  have rows: "context_rows (docs_to_context num_str ds True) = Inr (concat (map doc_rows ds))"
  proof (cases "ds = []")
    case True
    then show ?thesis by (simp add: docs_to_context_def no_docs_context)
  next
    case False
    let ?f = "\<lambda>d. summary_line num_str (metadata d) # nonblank (splitlines (km_data d))"
    have each: "concat (map (\<lambda>x. nonblank (splitlines x)) (context_lines num_str True d)) = ?f d"
      if "wf_doc num_str d" for d
      using nonblank_header_line [OF summary_line_wf(1,2,4) [OF that]]
      by (simp add: context_lines_def del: splitlines.simps)
    have "nonblank (splitlines (docs_to_context num_str ds True))
          = concat (map (\<lambda>x. nonblank (splitlines x)) (concat (map (context_lines num_str True) ds)))"
      using False by (simp add: docs_to_context_def nonblank_join)
    also have "\<dots> = concat (map (\<lambda>d. concat (map (\<lambda>x. nonblank (splitlines x))
                                    (context_lines num_str True d))) ds)"
      by (rule concat_map_concat_map)
    also have "\<dots> = concat (map ?f ds)"
      using assms each by (intro arg_cong [where f = concat] map_cong) (auto simp: list_all_iff)
    finally have "nonblank (splitlines (docs_to_context num_str ds True)) = concat (map ?f ds)" .
    then have "context_rows (docs_to_context num_str ds True)
               = parse_lines None (concat (map ?f ds))"
      unfolding context_rows_def by (metis parse_lines_nonblank)
    then show ?thesis using parse_docs [OF assms] by simp
  qed
  have frame: "context_to_dataframe to_datetime (docs_to_context num_str ds True)
           = retype_dates to_datetime (concat (map doc_rows ds))"
    by (simp add: context_to_dataframe_def rows)
  have len: "length (concat (map doc_rows ds))
             = sum_list (map (\<lambda>d. length (km_entries (km_data d))) ds)"
    by (simp add: length_concat doc_rows_def comp_def)
  have parent: "list_all (\<lambda>r. r_date r = date_str d \<and> r_run_name r = name_str d
                        \<and> r_run_type r = type_str d
                        \<and> r_distance r = num_val (m_distance (metadata d))
                        \<and> r_avg_hr r = num_val (m_avg_hr (metadata d))
                        \<and> r_avg_pace r = num_val (m_pace (metadata d))
                        \<and> r_total_elevation r = num_val (m_elevation_gain (metadata d)))
                  (doc_rows d)"
    by (simp add: doc_rows_def list_all_iff mk_row_def header_of_def)
  show ?thesis using rows frame len parent by simp
qed

theorem context_round_trip_witness:
  "list_all (wf_doc float_str) [tempo_doc, tempo_doc]
   \<and> context_rows (docs_to_context float_str [tempo_doc, tempo_doc] True)
       = Inr (doc_rows tempo_doc @ doc_rows tempo_doc)
   \<and> context_to_dataframe to_datetime_stored (docs_to_context float_str [tempo_doc, tempo_doc] True)
       = retype_dates to_datetime_stored (doc_rows tempo_doc @ doc_rows tempo_doc)
   \<and> length (doc_rows tempo_doc @ doc_rows tempo_doc) = 4
   \<and> map r_date (doc_rows tempo_doc) = [''2025-07-31 06:08:32'', ''2025-07-31 06:08:32'']"
proof -
  have w: "wf_doc float_str tempo_doc"
    by code_simp
  then have h: "list_all (wf_doc float_str) [tempo_doc, tempo_doc]"
    by simp
  have k: "length (km_entries (km_data tempo_doc)) = 2"
    by code_simp
  have d: "date_str tempo_doc = ''2025-07-31 06:08:32''"
    by code_simp
  have r: "map r_date (doc_rows tempo_doc) = replicate 2 (date_str tempo_doc)"
    using k by (simp add: doc_rows_def mk_row_def header_of_def comp_def map_replicate_const)
  show ?thesis
    using h k r d context_round_trip [OF h, of to_datetime_stored]
    by (simp add: numeral_2_eq_2)
qed

text \<open>
  C1 as stated fails for a document whose name holds the separator: the segments of the
  summary line shift, and the rows carry the name \<open>Tempo\<close>, the distance \<open>3\<close> and the type
  \<open>Elevation: 15.6 m\<close> where the metadata has \<open>Tempo | Week 3\<close>, \<open>7\<close> and \<open>Tempo\<close>.
\<close>

theorem context_round_trip_counterexample:
  "context_to_dataframe to_datetime_stored (docs_to_context float_str [piped_doc] True)
     = Inr [\<lparr>r_date = Some (2025, 7, 31, 6, 8, 32), r_run_name = ''Tempo'',
              r_run_type = ''Elevation: 15.6 m'', r_km = 1, r_pace = 349 / 40,
              r_hr = 18281 / 125, r_power = 170, r_elevation_gain = 11 / 5,
              r_distance = 3, r_avg_hr = 231 / 25, r_avg_pace = 7,
              r_total_elevation = 8139 / 50\<rparr>,
            \<lparr>r_date = Some (2025, 7, 31, 6, 8, 32), r_run_name = ''Tempo'',
              r_run_type = ''Elevation: 15.6 m'', r_km = 2, r_pace = 7909 / 1000,
              r_hr = 83347 / 500, r_power = 165, r_elevation_gain = 13 / 5,
              r_distance = 3, r_avg_hr = 231 / 25, r_avg_pace = 7,
              r_total_elevation = 8139 / 50\<rparr>]
   \<and> m_name (metadata piped_doc) = Some (PyStr ''Tempo | Week 3'')
   \<and> m_distance (metadata piped_doc) = Some (PyNum 7)
   \<and> m_type (metadata piped_doc) = Some (PyStr ''Tempo'')"
  by code_simp

end
